theory Spec2Isabelle
  imports Complex_Main
begin

section \<open>Arrays of the host array library\<close>

text \<open>
  The operations of \<^verbatim>\<open>chainer/functions/linear.py\<close> and
  \<^verbatim>\<open>chainer/functions/basic_math.py\<close> are thin compositions of numpy calls. Every
  Python exception is a value of \<open>py_error\<close>, returned as \<open>Inl\<close>; \<open>DeviceFault\<close> stands for
  an accelerator kernel that indexes past the end of an array, where the model stops.

  An array has a shape and its elements in row-major (C) order. The element type is a
  type variable: in \<^verbatim>\<open>linear.py\<close> it stands for the float32 values (the infinities and
  NaN among them), and the arithmetic on them is a parameter, \<open>float_ops\<close> below. The
  elementwise operations of \<^verbatim>\<open>basic_math.py\<close> are modelled on arrays of exact reals,
  without rounding, infinities or NaN.
\<close>

datatype py_error =
  ZeroDivisionError | ValueError | TypeError | IndexError | AttributeError | DeviceFault

record 'a ndarray =
  shape :: "nat list"
  data :: "'a list"

definition size_nd :: "'a ndarray \<Rightarrow> nat" where
  "size_nd a = prod_list (shape a)"

definition wf_nd :: "'a ndarray \<Rightarrow> bool" where
  "wf_nd a = (length (data a) = prod_list (shape a))"

text \<open>
  A two-dimensional array. \<open>W\<close> and \<open>gW\<close> are created two-dimensional by
  \<^verbatim>\<open>__init__\<close>, \<^verbatim>\<open>_as_mat\<close> always returns a two-dimensional array, and the
  output gradient \<open>gy[0]\<close> belongs to the two-dimensional output of forward.
\<close>

record 'a matrix =
  nrows :: nat
  ncols :: nat
  elems :: "'a list"

definition wf_mat :: "'a matrix \<Rightarrow> bool" where
  "wf_mat m = (length (elems m) = nrows m * ncols m)"

definition mat_at :: "'a matrix \<Rightarrow> nat \<Rightarrow> nat \<Rightarrow> 'a" where
  "mat_at m i j = elems m ! (i * ncols m + j)"

definition mk_matrix :: "nat \<Rightarrow> nat \<Rightarrow> (nat \<Rightarrow> nat \<Rightarrow> 'a) \<Rightarrow> 'a matrix" where
  "mk_matrix r c f =
     \<lparr>nrows = r, ncols = c, elems = map (\<lambda>k. f (k div c) (k mod c)) [0..<r * c]\<rparr>"

definition mat_row :: "'a matrix \<Rightarrow> nat \<Rightarrow> 'a list" where
  "mat_row m i = map (\<lambda>l. mat_at m i l) [0..<ncols m]"

definition mat_col :: "'a matrix \<Rightarrow> nat \<Rightarrow> 'a list" where
  "mat_col m j = map (\<lambda>l. mat_at m l j) [0..<nrows m]"

text \<open>\<^verbatim>\<open>m.T\<close> of a two-dimensional array.\<close>

definition T :: "'a matrix \<Rightarrow> 'a matrix" where
  "T m = mk_matrix (ncols m) (nrows m) (\<lambda>i j. mat_at m j i)"

text \<open>
  The floating-point arithmetic of the arrays in \<^verbatim>\<open>linear.py\<close>. Nothing is assumed
  about it: no operation need be associative, and every value of \<open>'a\<close> may occur.
  \<^item> \<open>fl_add\<close>: the rounded addition of two elements, as \<^verbatim>\<open>+=\<close> performs it;
  \<^item> \<open>fl_dot\<close>: the inner product of two vectors of equal length, as the library computes
    one entry of \<^verbatim>\<open>a.dot(c)\<close> from a row of \<open>a\<close> and a column of \<open>c\<close> (the order of
    its additions and its roundings are the library's);
  \<^item> \<open>fl_sum\<close>: the sum of a vector, as \<^verbatim>\<open>m.sum(0)\<close> computes one entry from a column;
  \<^item> \<open>fl_const\<close>: \<^verbatim>\<open>numpy.float32(v)\<close> of a Python number.
\<close>

record 'a float_ops =
  fl_add :: "'a \<Rightarrow> 'a \<Rightarrow> 'a"
  fl_dot :: "'a list \<Rightarrow> 'a list \<Rightarrow> 'a"
  fl_sum :: "'a list \<Rightarrow> 'a"
  fl_const :: "real \<Rightarrow> 'a"

text \<open>\<^verbatim>\<open>a.dot(c)\<close> of two-dimensional arrays; numpy raises ValueError when the inner
  dimensions differ.\<close>

definition dot :: "'a float_ops \<Rightarrow> 'a matrix \<Rightarrow> 'a matrix \<Rightarrow> py_error + 'a matrix" where
  "dot ops a c =
     (if ncols a = nrows c
      then Inr (mk_matrix (nrows a) (ncols c) (\<lambda>i j. fl_dot ops (mat_row a i) (mat_col c j)))
      else Inl ValueError)"

text \<open>\<^verbatim>\<open>m.sum(0)\<close>: the sum over the leading axis, one entry per column.\<close>

definition sum0 :: "'a float_ops \<Rightarrow> 'a matrix \<Rightarrow> 'a list" where
  "sum0 ops m = map (\<lambda>j. fl_sum ops (mat_col m j)) [0..<ncols m]"

text \<open>
  The in-place additions \<^verbatim>\<open>g += m\<close>. The right operand is broadcast to the shape of
  the left one: each of its dimensions must equal the target's or be 1, otherwise numpy
  raises ValueError. Each entry of the target receives one rounded addition.
\<close>

definition iadd_mat :: "'a float_ops \<Rightarrow> 'a matrix \<Rightarrow> 'a matrix \<Rightarrow> py_error + 'a matrix" where
  "iadd_mat ops g m =
     (if (nrows m = nrows g \<or> nrows m = 1) \<and> (ncols m = ncols g \<or> ncols m = 1)
      then Inr (mk_matrix (nrows g) (ncols g)
                  (\<lambda>i j. fl_add ops (mat_at g i j)
                     (mat_at m (if nrows m = nrows g then i else 0)
                               (if ncols m = ncols g then j else 0))))
      else Inl ValueError)"

definition iadd_vec :: "'a float_ops \<Rightarrow> 'a list \<Rightarrow> 'a list \<Rightarrow> py_error + 'a list" where
  "iadd_vec ops g v =
     (if length v = length g \<or> length v = 1
      then Inr (map (\<lambda>j. fl_add ops (g ! j) (v ! (if length v = length g then j else 0)))
                  [0..<length g])
      else Inl ValueError)"

definition iadd_rowvec :: "'a float_ops \<Rightarrow> 'a matrix \<Rightarrow> 'a list \<Rightarrow> py_error + 'a matrix" where
  "iadd_rowvec ops m v =
     (if length v = ncols m \<or> length v = 1
      then Inr (mk_matrix (nrows m) (ncols m)
                  (\<lambda>i j. fl_add ops (mat_at m i j) (v ! (if length v = ncols m then j else 0))))
      else Inl ValueError)"

text \<open>\<^verbatim>\<open>x.reshape(r, c)\<close> and \<^verbatim>\<open>m.reshape(s)\<close>: the elements stay in row-major
  order; ValueError when the number of elements changes.\<close>

definition reshape2 :: "'a ndarray \<Rightarrow> nat \<Rightarrow> nat \<Rightarrow> py_error + 'a matrix" where
  "reshape2 x r c =
     (if r * c = size_nd x then Inr \<lparr>nrows = r, ncols = c, elems = data x\<rparr>
      else Inl ValueError)"

definition reshape_nd :: "'a matrix \<Rightarrow> nat list \<Rightarrow> py_error + 'a ndarray" where
  "reshape_nd m s =
     (if prod_list s = nrows m * ncols m then Inr \<lparr>shape = s, data = elems m\<rparr>
      else Inl ValueError)"

definition reshape :: "'a ndarray \<Rightarrow> nat list \<Rightarrow> py_error + 'a ndarray" where
  "reshape x s =
     (if prod_list s = size_nd x then Inr \<lparr>shape = s, data = data x\<rparr> else Inl ValueError)"

text \<open>\<^verbatim>\<open>numpy.empty_like(m)\<close>: an array of the same shape whose contents are whatever the
  allocated memory \<open>mem\<close> holds.\<close>

definition empty_like :: "(nat \<Rightarrow> 'a) \<Rightarrow> 'a matrix \<Rightarrow> 'a matrix" where
  "empty_like mem m =
     \<lparr>nrows = nrows m, ncols = ncols m, elems = map mem [0..<nrows m * ncols m]\<rparr>"

section \<open>linear.py\<close>

text \<open>
  \<^verbatim>\<open>def _as_mat(x): return x.reshape(x.shape[0], x.size / x.shape[0])\<close>

  \<open>x.shape[0]\<close> raises IndexError on a zero-dimensional array; \<open>/\<close> is Python 2's
  integer division and raises ZeroDivisionError on an empty batch.
\<close>

definition as_mat :: "'a ndarray \<Rightarrow> py_error + 'a matrix" where
  "as_mat x =
     (case shape x of
        [] \<Rightarrow> Inl IndexError
      | n # _ \<Rightarrow> if n = 0 then Inl ZeroDivisionError else reshape2 x n (size_nd x div n))"

record 'a linear =
  W :: "'a matrix"
  gW :: "'a matrix"
  b :: "'a list option"
  gb :: "'a list option"

text \<open>
  \<^verbatim>\<open>Linear.__init__(self, in_size, out_size, wscale=1, bias=0, nobias=False)\<close>.
  The random generator \<open>normal loc scale\<close> is the array library's: it raises, or yields a
  stream of samples, already converted by \<^verbatim>\<open>astype(numpy.float32)\<close>, of which the first
  \<open>out_size * in_size\<close> fill \<open>W\<close>. \<open>memW\<close> and \<open>memb\<close> are the contents of the memory that
  the two \<open>empty_like\<close> calls receive. \<open>1. / in_size\<close> raises ZeroDivisionError when
  \<open>in_size\<close> is 0.
\<close>

definition Linear_init ::
  "'a float_ops \<Rightarrow> (real \<Rightarrow> real \<Rightarrow> py_error + (nat \<Rightarrow> 'a)) \<Rightarrow> (nat \<Rightarrow> 'a) \<Rightarrow> (nat \<Rightarrow> 'a) \<Rightarrow>
   nat \<Rightarrow> nat \<Rightarrow> real \<Rightarrow> real \<Rightarrow> bool \<Rightarrow> py_error + 'a linear" where
  "Linear_init ops normal memW memb in_size out_size wscale bias nobias =
     (if in_size = 0 then Inl ZeroDivisionError
      else case normal 0 (wscale * sqrt (1 / real in_size)) of
        Inl e \<Rightarrow> Inl e
      | Inr sample \<Rightarrow>
          let W0 = \<lparr>nrows = out_size, ncols = in_size,
                    elems = map sample [0..<out_size * in_size]\<rparr>;
              gW0 = empty_like memW W0
          in if nobias then Inr \<lparr>W = W0, gW = gW0, b = None, gb = None\<rparr>
             else Inr \<lparr>W = W0, gW = gW0, b = Some (replicate out_size (fl_const ops bias)),
                       gb = Some (map memb [0..<out_size])\<rparr>)"

definition parameter_names :: "'a linear \<Rightarrow> string list" where
  "parameter_names self = (if b self = None then [''W''] else [''W'', ''b''])"

definition gradient_names :: "'a linear \<Rightarrow> string list" where
  "gradient_names self = (if gb self = None then [''gW''] else [''gW'', ''gb''])"

text \<open>
  \<^verbatim>\<open>Linear.forward_cpu(self, x)\<close>: \<open>x\<close> is the tuple of inputs, \<open>x[0]\<close> raises IndexError on the
  empty tuple. The result is the one element of the returned tuple.
\<close>

definition Linear_forward_cpu ::
  "'a float_ops \<Rightarrow> 'a linear \<Rightarrow> 'a ndarray list \<Rightarrow> py_error + 'a matrix" where
  "Linear_forward_cpu ops self x =
     (case x of
        [] \<Rightarrow> Inl IndexError
      | x0 # _ \<Rightarrow>
          (case as_mat x0 of
             Inl e \<Rightarrow> Inl e
           | Inr xm \<Rightarrow>
               (case dot ops xm (T (W self)) of
                  Inl e \<Rightarrow> Inl e
                | Inr Wx \<Rightarrow>
                    (case b self of
                       None \<Rightarrow> Inr Wx
                     | Some bv \<Rightarrow> iadd_rowvec ops Wx bv))))"

text \<open>
  \<^verbatim>\<open>Linear.backward_cpu(self, x, gy)\<close> mutates \<open>self.gW\<close> and \<open>self.gb\<close> in place, so the model
  returns the instance as the call leaves it, also when a later statement raises, next to
  the raised error or the returned input gradient.
\<close>

definition Linear_backward_cpu ::
  "'a float_ops \<Rightarrow> 'a linear \<Rightarrow> 'a ndarray list \<Rightarrow> 'a matrix list \<Rightarrow>
   'a linear \<times> (py_error + 'a ndarray)" where
  "Linear_backward_cpu ops self x gy =
     (case x of
        [] \<Rightarrow> (self, Inl IndexError)
      | x0 # _ \<Rightarrow>
     (case as_mat x0 of
        Inl e \<Rightarrow> (self, Inl e)
      | Inr xm \<Rightarrow>
     (case gy of
        [] \<Rightarrow> (self, Inl IndexError)
      | gy0 # _ \<Rightarrow>
     (case dot ops (T gy0) xm of
        Inl e \<Rightarrow> (self, Inl e)
      | Inr dW \<Rightarrow>
     (case iadd_mat ops (gW self) dW of
        Inl e \<Rightarrow> (self, Inl e)
      | Inr gW1 \<Rightarrow>
     (let self1 = self\<lparr>gW := gW1\<rparr> in
      case (case gb self1 of
              None \<Rightarrow> Inr None
            | Some g \<Rightarrow> (case iadd_vec ops g (sum0 ops gy0) of
                          Inl e \<Rightarrow> Inl e
                        | Inr g1 \<Rightarrow> Inr (Some g1))) of
        Inl e \<Rightarrow> (self1, Inl e)
      | Inr gb1 \<Rightarrow>
     (let self2 = self1\<lparr>gb := gb1\<rparr> in
      (self2, case dot ops gy0 (W self2) of
                Inl e \<Rightarrow> Inl e
              | Inr gx \<Rightarrow> reshape_nd gx (shape x0)))))))))"

text \<open>
  A caller that invokes \<open>backward_cpu\<close> once per recorded forward pass, in order, on the
  same instance and without touching the accumulators in between. A pass is an input and
  the gradient of the output that forward returned for it: the batch is not empty, the
  flattened input has \<open>in_size\<close> features, and the gradient has the output's shape.
\<close>

fun backward_all ::
  "'a float_ops \<Rightarrow> 'a linear \<Rightarrow> ('a ndarray \<times> 'a matrix) list \<Rightarrow> 'a linear" where
  "backward_all ops self [] = self"
| "backward_all ops self (c # cs) =
     backward_all ops (fst (Linear_backward_cpu ops self [fst c] [snd c])) cs"

definition ok_call :: "'a linear \<Rightarrow> 'a ndarray \<times> 'a matrix \<Rightarrow> bool" where
  "ok_call self c =
     (case shape (fst c) of
        [] \<Rightarrow> False
      | n # ds \<Rightarrow> 0 < n \<and> prod_list ds = ncols (W self) \<and>
                  nrows (snd c) = n \<and> ncols (snd c) = nrows (W self))"

text \<open>
  Single precision itself, on the finite values of its normal range, taken as reals: an
  operation returns its exact result rounded to the nearest value with 24 significant
  bits, a tie going to the even significand. Inner products and sums accumulate from left
  to right, starting from zero.
\<close>

definition round_even :: "real \<Rightarrow> int" where
  "round_even x =
     (let f = \<lfloor>x\<rfloor> in
      if x - of_int f < 1 / 2 then f
      else if 1 / 2 < x - of_int f then f + 1
      else if even f then f else f + 1)"

definition float32 :: "real \<Rightarrow> real" where
  "float32 x =
     (if x = 0 then 0
      else of_int (round_even (x / 2 powr (of_int \<lfloor>log 2 \<bar>x\<bar>\<rfloor> - 23))) *
           2 powr (of_int \<lfloor>log 2 \<bar>x\<bar>\<rfloor> - 23))"

definition ieee_single :: "real float_ops" where
  "ieee_single =
     \<lparr>fl_add = (\<lambda>u v. float32 (u + v)),
      fl_dot = (\<lambda>us vs. foldl (\<lambda>s p. float32 (s + float32 (fst p * snd p))) 0 (zip us vs)),
      fl_sum = foldl (\<lambda>s v. float32 (s + v)) 0,
      fl_const = float32\<rparr>"

section \<open>Elementwise arithmetic of the array library\<close>

text \<open>
  Floating-point division, power, logarithm and exponential are the array library's.
  Under numpy's default error handling they never raise: at a zero divisor or a
  non-positive logarithm they return an IEEE infinity or NaN. The model takes them as
  total functions and leaves their values open.
\<close>

record mathlib =
  fdiv :: "real \<Rightarrow> real \<Rightarrow> real"
  fpow :: "real \<Rightarrow> real \<Rightarrow> real"
  flog :: "real \<Rightarrow> real"
  fexp :: "real \<Rightarrow> real"

definition bind_err :: "py_error + 'a \<Rightarrow> ('a \<Rightarrow> py_error + 'c) \<Rightarrow> py_error + 'c" where
  "bind_err m f = (case m of Inl e \<Rightarrow> Inl e | Inr v \<Rightarrow> f v)"

text \<open>\<^verbatim>\<open>x[i]\<close> on a tuple.\<close>

definition item :: "'a list \<Rightarrow> nat \<Rightarrow> py_error + 'a" where
  "item xs i = (if i < length xs then Inr (xs ! i) else Inl IndexError)"

text \<open>
  Broadcasting of two shapes, compared from the trailing dimension: two dimensions are
  compatible when they are equal or one of them is 1.
\<close>

fun broadcast_rev :: "nat list \<Rightarrow> nat list \<Rightarrow> nat list option" where
  "broadcast_rev [] ys = Some ys"
| "broadcast_rev xs [] = Some xs"
| "broadcast_rev (x # xs) (y # ys) =
     (if x = y \<or> y = 1 then map_option ((#) x) (broadcast_rev xs ys)
      else if x = 1 then map_option ((#) y) (broadcast_rev xs ys)
      else None)"

definition broadcast_shapes :: "nat list \<Rightarrow> nat list \<Rightarrow> nat list option" where
  "broadcast_shapes s t = map_option rev (broadcast_rev (rev s) (rev t))"

text \<open>Row-major elements of an array of shape \<open>ds\<close> repeated to the shape \<open>es\<close> of equal
  length: a dimension of extent 1 is repeated, any other is kept.\<close>

fun expand :: "nat list \<Rightarrow> nat list \<Rightarrow> real list \<Rightarrow> real list" where
  "expand (d # ds) (e # es) xs =
     (if d = e
      then concat (map (\<lambda>i. expand ds es (take (prod_list ds) (drop (i * prod_list ds) xs)))
                     [0..<d])
      else concat (replicate e (expand ds es xs)))"
| "expand _ _ xs = xs"

definition broadcast_to :: "real ndarray \<Rightarrow> nat list \<Rightarrow> real list" where
  "broadcast_to a s = expand (replicate (length s - length (shape a)) 1 @ shape a) s (data a)"

definition np_binop :: "(real \<Rightarrow> real \<Rightarrow> real) \<Rightarrow> real ndarray \<Rightarrow> real ndarray \<Rightarrow> py_error + real ndarray" where
  "np_binop f a c =
     (case broadcast_shapes (shape a) (shape c) of
        None \<Rightarrow> Inl ValueError
      | Some s \<Rightarrow> Inr \<lparr>shape = s, data = map2 f (broadcast_to a s) (broadcast_to c s)\<rparr>)"

definition np_map :: "(real \<Rightarrow> real) \<Rightarrow> real ndarray \<Rightarrow> real ndarray" where
  "np_map f a = \<lparr>shape = shape a, data = map f (data a)\<rparr>"

text \<open>
  What a constant operand can be: a plain Python number, a numpy array, or an object that
  supports no arithmetic (a string, say), on which every operator raises TypeError.
\<close>

datatype const = PyNumber real | NdArray "real ndarray" | Other

text \<open>An operator with an array on the left, and with an array on the right.\<close>

fun array_op :: "(real \<Rightarrow> real \<Rightarrow> real) \<Rightarrow> real ndarray \<Rightarrow> const \<Rightarrow> py_error + real ndarray" where
  "array_op f a (PyNumber c) = Inr (np_map (\<lambda>v. f v c) a)"
| "array_op f a (NdArray c) = np_binop f a c"
| "array_op f a Other = Inl TypeError"

fun op_array :: "(real \<Rightarrow> real \<Rightarrow> real) \<Rightarrow> const \<Rightarrow> real ndarray \<Rightarrow> py_error + real ndarray" where
  "op_array f (PyNumber c) a = Inr (np_map (f c) a)"
| "op_array f (NdArray c) a = np_binop f c a"
| "op_array f Other a = Inl TypeError"

text \<open>\<^verbatim>\<open>-value\<close>.\<close>

fun py_neg :: "const \<Rightarrow> py_error + const" where
  "py_neg (PyNumber c) = Inr (PyNumber (- c))"
| "py_neg (NdArray a) = Inr (NdArray (np_map uminus a))"
| "py_neg Other = Inl TypeError"

text \<open>\<^verbatim>\<open>1. / rhs\<close>: between two Python numbers the division is Python's, which raises
  ZeroDivisionError; on an array it is the array library's.\<close>

fun py_recip :: "mathlib \<Rightarrow> const \<Rightarrow> py_error + const" where
  "py_recip lib (PyNumber c) =
     (if c = 0 then Inl ZeroDivisionError else Inr (PyNumber (fdiv lib 1 c)))"
| "py_recip lib (NdArray a) = Inr (NdArray (np_map (fdiv lib 1) a))"
| "py_recip lib Other = Inl TypeError"

text \<open>\<^verbatim>\<open>value - 1\<close>.\<close>

fun py_sub1 :: "const \<Rightarrow> py_error + const" where
  "py_sub1 (PyNumber c) = Inr (PyNumber (c - 1))"
| "py_sub1 (NdArray a) = Inr (NdArray (np_map (\<lambda>v. v - 1) a))"
| "py_sub1 Other = Inl TypeError"

text \<open>\<^verbatim>\<open>numpy.log(value)\<close>.\<close>

fun numpy_log :: "mathlib \<Rightarrow> const \<Rightarrow> py_error + const" where
  "numpy_log lib (PyNumber c) = Inr (PyNumber (flog lib c))"
| "numpy_log lib (NdArray a) = Inr (NdArray (np_map (flog lib) a))"
| "numpy_log lib Other = Inl TypeError"

text \<open>\<^verbatim>\<open>math.log(value)\<close> of a Python number: ValueError (math domain error) unless the
  argument is positive.\<close>

definition math_log :: "mathlib \<Rightarrow> real \<Rightarrow> py_error + real" where
  "math_log lib c = (if c \<le> 0 then Inl ValueError else Inr (flog lib c))"

section \<open>basic_math.py: the operations\<close>

text \<open>
  One constructor per class; its arguments are the instance attributes: the constant
  \<open>value\<close>, and the cached output \<open>y\<close>, which exists only once \<open>forward_cpu\<close> has set it.
\<close>

datatype func =
    Neg
  | Add
  | AddConstant const
  | Sub
  | SubFromConstant const
  | Mul
  | MulConstant const
  | Div
  | DivFromConstant const
  | PowVarVar "real ndarray option"
  | PowVarConst const
  | PowConstVar const "real ndarray option"
  | Exp "real ndarray option"
  | Log

definition attr_y :: "real ndarray option \<Rightarrow> py_error + real ndarray" where
  "attr_y y = (case y of None \<Rightarrow> Inl AttributeError | Some v \<Rightarrow> Inr v)"

text \<open>
  The forward computation on host arrays: the class's \<open>forward\<close> where it defines one for
  both backends, its \<open>forward_cpu\<close> otherwise. The result is the instance as the call
  leaves it and the one element of the returned tuple.
\<close>

fun forward_cpu :: "mathlib \<Rightarrow> func \<Rightarrow> real ndarray list \<Rightarrow> py_error + func \<times> real ndarray" where
  "forward_cpu lib Neg x =
     bind_err (item x 0) (\<lambda>x0. Inr (Neg, np_map uminus x0))"
| "forward_cpu lib Add x =
     bind_err (item x 0) (\<lambda>x0. bind_err (item x 1) (\<lambda>x1.
     bind_err (np_binop (+) x0 x1) (\<lambda>r. Inr (Add, r))))"
| "forward_cpu lib (AddConstant v) x =
     bind_err (item x 0) (\<lambda>x0.
     bind_err (array_op (+) x0 v) (\<lambda>r. Inr (AddConstant v, r)))"
| "forward_cpu lib Sub x =
     bind_err (item x 0) (\<lambda>x0. bind_err (item x 1) (\<lambda>x1.
     bind_err (np_binop (-) x0 x1) (\<lambda>r. Inr (Sub, r))))"
| "forward_cpu lib (SubFromConstant v) x =
     bind_err (item x 0) (\<lambda>x0.
     bind_err (op_array (-) v x0) (\<lambda>r. Inr (SubFromConstant v, r)))"
| "forward_cpu lib Mul x =
     bind_err (item x 0) (\<lambda>x0. bind_err (item x 1) (\<lambda>x1.
     bind_err (np_binop (*) x0 x1) (\<lambda>r. Inr (Mul, r))))"
| "forward_cpu lib (MulConstant v) x =
     bind_err (item x 0) (\<lambda>x0.
     bind_err (op_array (*) v x0) (\<lambda>r. Inr (MulConstant v, r)))"
| "forward_cpu lib Div x =
     bind_err (item x 0) (\<lambda>x0. bind_err (item x 1) (\<lambda>x1.
     bind_err (np_binop (fdiv lib) x0 x1) (\<lambda>r. Inr (Div, r))))"
| "forward_cpu lib (DivFromConstant v) x =
     bind_err (item x 0) (\<lambda>x0.
     bind_err (op_array (fdiv lib) v x0) (\<lambda>r. Inr (DivFromConstant v, r)))"
| "forward_cpu lib (PowVarVar y) x =
     bind_err (item x 0) (\<lambda>x0. bind_err (item x 1) (\<lambda>x1.
     bind_err (np_binop (fpow lib) x0 x1) (\<lambda>r. Inr (PowVarVar (Some r), r))))"
| "forward_cpu lib (PowVarConst v) x =
     bind_err (item x 0) (\<lambda>x0.
     bind_err (array_op (fpow lib) x0 v) (\<lambda>r. Inr (PowVarConst v, r)))"
| "forward_cpu lib (PowConstVar v y) x =
     bind_err (item x 0) (\<lambda>x0.
     bind_err (op_array (fpow lib) v x0) (\<lambda>r. Inr (PowConstVar v (Some r), r)))"
| "forward_cpu lib (Exp y) x =
     bind_err (item x 0) (\<lambda>x0.
     let r = np_map (fexp lib) x0 in Inr (Exp (Some r), r))"
| "forward_cpu lib Log x =
     bind_err (item x 0) (\<lambda>x0. Inr (Log, np_map (flog lib) x0))"

text \<open>
  The backward computation on host arrays (\<open>backward\<close>, or \<open>backward_cpu\<close> where the class
  splits it); the result is the returned tuple. The subexpressions are evaluated in
  Python's order, left to right.
\<close>

fun backward_cpu :: "mathlib \<Rightarrow> func \<Rightarrow> real ndarray list \<Rightarrow> real ndarray list \<Rightarrow> py_error + real ndarray list"
  where
  "backward_cpu lib Neg x gy =
     bind_err (item gy 0) (\<lambda>g. Inr [np_map uminus g])"
| "backward_cpu lib Add x gy =
     bind_err (item gy 0) (\<lambda>g. bind_err (item gy 0) (\<lambda>g'. Inr [g, g']))"
| "backward_cpu lib (AddConstant v) x gy =
     bind_err (item gy 0) (\<lambda>g. Inr [g])"
| "backward_cpu lib Sub x gy =
     bind_err (item gy 0) (\<lambda>g. bind_err (item gy 0) (\<lambda>g'. Inr [g, np_map uminus g']))"
| "backward_cpu lib (SubFromConstant v) x gy =
     bind_err (item gy 0) (\<lambda>g. Inr [np_map uminus g])"
| "backward_cpu lib Mul x gy =
     bind_err (item gy 0) (\<lambda>g. bind_err (item x 1) (\<lambda>x1.
     bind_err (np_binop (*) g x1) (\<lambda>gx0.
     bind_err (item gy 0) (\<lambda>g'. bind_err (item x 0) (\<lambda>x0.
     bind_err (np_binop (*) g' x0) (\<lambda>gx1. Inr [gx0, gx1]))))))"
| "backward_cpu lib (MulConstant v) x gy =
     bind_err (item gy 0) (\<lambda>g.
     bind_err (op_array (*) v g) (\<lambda>gx. Inr [gx]))"
| "backward_cpu lib Div x gy =
     bind_err (item gy 0) (\<lambda>g. bind_err (item x 1) (\<lambda>x1.
     bind_err (np_binop (fdiv lib) g x1) (\<lambda>gx0.
     bind_err (item x 0) (\<lambda>x0.
     bind_err (np_binop (*) (np_map uminus gx0) x0) (\<lambda>t.
     bind_err (item x 1) (\<lambda>x1'.
     bind_err (np_binop (fdiv lib) t x1') (\<lambda>gx1. Inr [gx0, gx1])))))))"
| "backward_cpu lib (DivFromConstant v) x gy =
     bind_err (py_neg v) (\<lambda>nv.
     bind_err (item gy 0) (\<lambda>g.
     bind_err (op_array (*) nv g) (\<lambda>t.
     bind_err (item x 0) (\<lambda>x0.
     bind_err (array_op (fpow lib) x0 (PyNumber 2)) (\<lambda>sq.
     bind_err (np_binop (fdiv lib) t sq) (\<lambda>gx. Inr [gx]))))))"
| "backward_cpu lib (PowVarVar y) x gy =
     bind_err (item x 1) (\<lambda>x1. bind_err (item x 0) (\<lambda>x0. bind_err (item x 1) (\<lambda>x1'.
     bind_err (array_op (-) x1' (PyNumber 1)) (\<lambda>e.
     bind_err (np_binop (fpow lib) x0 e) (\<lambda>p.
     bind_err (np_binop (*) x1 p) (\<lambda>t.
     bind_err (item gy 0) (\<lambda>g.
     bind_err (np_binop (*) t g) (\<lambda>gx0.
     bind_err (item x 0) (\<lambda>x0'.
     bind_err (attr_y y) (\<lambda>yv.
     bind_err (np_binop (*) (np_map (flog lib) x0') yv) (\<lambda>u.
     bind_err (item gy 0) (\<lambda>g'.
     bind_err (np_binop (*) u g') (\<lambda>gx1. Inr [gx0, gx1])))))))))))))"
| "backward_cpu lib (PowVarConst v) x gy =
     bind_err (item x 0) (\<lambda>x0.
     bind_err (py_sub1 v) (\<lambda>e.
     bind_err (array_op (fpow lib) x0 e) (\<lambda>p.
     bind_err (op_array (*) v p) (\<lambda>t.
     bind_err (item gy 0) (\<lambda>g.
     bind_err (np_binop (*) t g) (\<lambda>gx. Inr [gx]))))))"
| "backward_cpu lib (PowConstVar v y) x gy =
     bind_err (numpy_log lib v) (\<lambda>lv.
     bind_err (attr_y y) (\<lambda>yv.
     bind_err (op_array (*) lv yv) (\<lambda>t.
     bind_err (item gy 0) (\<lambda>g.
     bind_err (np_binop (*) t g) (\<lambda>gx. Inr [gx])))))"
| "backward_cpu lib (Exp y) x gy =
     bind_err (attr_y y) (\<lambda>yv.
     bind_err (item gy 0) (\<lambda>g.
     bind_err (np_binop (*) yv g) (\<lambda>gx. Inr [gx])))"
| "backward_cpu lib Log x gy =
     bind_err (item gy 0) (\<lambda>g.
     bind_err (item x 0) (\<lambda>x0.
     bind_err (np_binop (fdiv lib) g x0) (\<lambda>gx. Inr [gx])))"

section \<open>basic_math.py: the accelerator kernels\<close>

text \<open>
  \<^verbatim>\<open>cuda.empty_like(a)\<close> allocates an array of the shape of \<open>a\<close> over memory \<open>mem\<close>.
  \<^verbatim>\<open>cuda.elementwise(arguments, operation, name)(args)\<close> runs \<open>operation\<close> once for every
  index \<open>i\<close> of its first array argument; \<open>arrays\<close> are the arrays that the operation
  indexes with \<open>i\<close>. \<open>store\<close> puts the computed values into an output array. The
  intrinsics \<open>__powf\<close> and \<open>__logf\<close> are taken to be the library's power and logarithm.
\<close>

definition cuda_empty_like :: "(nat \<Rightarrow> real) \<Rightarrow> real ndarray \<Rightarrow> real ndarray" where
  "cuda_empty_like mem a = \<lparr>shape = shape a, data = map mem [0..<size_nd a]\<rparr>"

definition elementwise :: "nat \<Rightarrow> real ndarray list \<Rightarrow> (nat \<Rightarrow> 'a) \<Rightarrow> py_error + 'a list" where
  "elementwise n arrays body =
     (if list_all (\<lambda>a. n \<le> length (data a)) arrays then Inr (map body [0..<n])
      else Inl DeviceFault)"

definition store :: "real ndarray \<Rightarrow> real list \<Rightarrow> real ndarray" where
  "store out vals = out\<lparr>data := vals @ drop (length vals) (data out)\<rparr>"

definition Mul_backward_gpu ::
  "(nat \<Rightarrow> real) \<Rightarrow> (nat \<Rightarrow> real) \<Rightarrow> real ndarray list \<Rightarrow> real ndarray list \<Rightarrow> py_error + real ndarray list"
  where
  "Mul_backward_gpu mem0 mem1 x gy =
     bind_err (item x 0) (\<lambda>a0. let gx0 = cuda_empty_like mem0 a0 in
     bind_err (item x 1) (\<lambda>a1. let gx1 = cuda_empty_like mem1 a1 in
     bind_err (item x 0) (\<lambda>x0. bind_err (item x 1) (\<lambda>x1. bind_err (item gy 0) (\<lambda>g.
     bind_err (elementwise (size_nd gx0) [gx0, gx1, x0, x1, g]
                 (\<lambda>i. (data g ! i * data x1 ! i, data g ! i * data x0 ! i))) (\<lambda>r.
     Inr [store gx0 (map fst r), store gx1 (map snd r)]))))))"

definition Div_backward_gpu ::
  "mathlib \<Rightarrow> (nat \<Rightarrow> real) \<Rightarrow> (nat \<Rightarrow> real) \<Rightarrow> real ndarray list \<Rightarrow> real ndarray list \<Rightarrow>
   py_error + real ndarray list" where
  "Div_backward_gpu lib mem0 mem1 x gy =
     bind_err (item x 0) (\<lambda>a0. let gx0 = cuda_empty_like mem0 a0 in
     bind_err (item x 1) (\<lambda>a1. let gx1 = cuda_empty_like mem1 a1 in
     bind_err (item x 0) (\<lambda>x0. bind_err (item x 1) (\<lambda>x1. bind_err (item gy 0) (\<lambda>g.
     bind_err (elementwise (size_nd gx0) [gx0, gx1, x0, x1, g]
                 (\<lambda>i. (fdiv lib (data g ! i) (data x1 ! i),
                       fdiv lib (- fdiv lib (data g ! i) (data x1 ! i) * data x0 ! i)
                         (data x1 ! i)))) (\<lambda>r.
     Inr [store gx0 (map fst r), store gx1 (map snd r)]))))))"

text \<open>
  The kernels with a constant operand branch on \<^verbatim>\<open>isinstance(self.value, Number)\<close>: a
  plain number goes to the kernel by value, anything else as an array to index. For an
  operand that is neither, the kernel call fails on preparing its arguments.
\<close>

definition DivFromConstant_backward_gpu ::
  "mathlib \<Rightarrow> (nat \<Rightarrow> real) \<Rightarrow> const \<Rightarrow> real ndarray list \<Rightarrow> real ndarray list \<Rightarrow>
   py_error + real ndarray list" where
  "DivFromConstant_backward_gpu lib mem v x gy =
     bind_err (item x 0) (\<lambda>a0. let gx = cuda_empty_like mem a0 in
     (case v of
        PyNumber c \<Rightarrow>
          bind_err (item x 0) (\<lambda>x0. bind_err (item gy 0) (\<lambda>g.
          bind_err (elementwise (size_nd gx) [gx, x0, g]
                      (\<lambda>i. fdiv lib (- c * data g ! i) (data x0 ! i * data x0 ! i))) (\<lambda>r.
          Inr [store gx r])))
      | NdArray a \<Rightarrow>
          bind_err (item x 0) (\<lambda>x0. bind_err (item gy 0) (\<lambda>g.
          bind_err (elementwise (size_nd gx) [gx, x0, g, a]
                      (\<lambda>i. fdiv lib (- data a ! i * data g ! i) (data x0 ! i * data x0 ! i)))
            (\<lambda>r.
          Inr [store gx r])))
      | Other \<Rightarrow> Inl TypeError))"

definition PowVarVar_backward_gpu ::
  "mathlib \<Rightarrow> (nat \<Rightarrow> real) \<Rightarrow> (nat \<Rightarrow> real) \<Rightarrow> real ndarray list \<Rightarrow> real ndarray list \<Rightarrow>
   py_error + real ndarray list" where
  "PowVarVar_backward_gpu lib mem0 mem1 x gy =
     bind_err (item x 0) (\<lambda>a0. let gx0 = cuda_empty_like mem0 a0 in
     bind_err (item x 1) (\<lambda>a1. let gx1 = cuda_empty_like mem1 a1 in
     bind_err (item x 0) (\<lambda>x0. bind_err (item x 1) (\<lambda>x1. bind_err (item gy 0) (\<lambda>g.
     bind_err (elementwise (size_nd gx0) [gx0, gx1, x0, x1, g]
                 (\<lambda>i. (data x1 ! i * fpow lib (data x0 ! i) (data x1 ! i - 1) * data g ! i,
                       flog lib (data x0 ! i) * fpow lib (data x0 ! i) (data x1 ! i) *
                         data g ! i))) (\<lambda>r.
     Inr [store gx0 (map fst r), store gx1 (map snd r)]))))))"

definition PowVarConst_backward_gpu ::
  "mathlib \<Rightarrow> (nat \<Rightarrow> real) \<Rightarrow> const \<Rightarrow> real ndarray list \<Rightarrow> real ndarray list \<Rightarrow>
   py_error + real ndarray list" where
  "PowVarConst_backward_gpu lib mem v x gy =
     bind_err (item x 0) (\<lambda>a0. let gx = cuda_empty_like mem a0 in
     (case v of
        PyNumber c \<Rightarrow>
          bind_err (item x 0) (\<lambda>x0. bind_err (item gy 0) (\<lambda>g.
          bind_err (elementwise (size_nd gx) [gx, x0, g]
                      (\<lambda>i. c * fpow lib (data x0 ! i) (c - 1) * data g ! i)) (\<lambda>r.
          Inr [store gx r])))
      | NdArray a \<Rightarrow>
          bind_err (item x 0) (\<lambda>x0. bind_err (item gy 0) (\<lambda>g.
          bind_err (elementwise (size_nd gx) [gx, x0, g, a]
                      (\<lambda>i. data a ! i * fpow lib (data x0 ! i) (data a ! i - 1) * data g ! i))
            (\<lambda>r.
          Inr [store gx r])))
      | Other \<Rightarrow> Inl TypeError))"

definition PowConstVar_forward_gpu ::
  "mathlib \<Rightarrow> (nat \<Rightarrow> real) \<Rightarrow> const \<Rightarrow> real ndarray list \<Rightarrow> py_error + real ndarray" where
  "PowConstVar_forward_gpu lib mem v x =
     bind_err (item x 0) (\<lambda>a0. let y = cuda_empty_like mem a0 in
     (case v of
        PyNumber c \<Rightarrow>
          bind_err (item x 0) (\<lambda>x0.
          bind_err (elementwise (size_nd y) [y, x0] (\<lambda>i. fpow lib c (data x0 ! i))) (\<lambda>r.
          Inr (store y r)))
      | NdArray a \<Rightarrow>
          bind_err (item x 0) (\<lambda>x0.
          bind_err (elementwise (size_nd y) [y, x0, a]
                      (\<lambda>i. fpow lib (data a ! i) (data x0 ! i))) (\<lambda>r.
          Inr (store y r)))
      | Other \<Rightarrow> Inl TypeError))"

text \<open>
  \<^verbatim>\<open>PowConstVar.backward_gpu\<close>: for a plain number the logarithm is taken on the host
  with \<^verbatim>\<open>math.log(self.value)\<close>, before the kernel is called.
\<close>

definition PowConstVar_backward_gpu ::
  "mathlib \<Rightarrow> (nat \<Rightarrow> real) \<Rightarrow> const \<Rightarrow> real ndarray list \<Rightarrow> real ndarray list \<Rightarrow>
   py_error + real ndarray list" where
  "PowConstVar_backward_gpu lib mem v x gy =
     bind_err (item x 0) (\<lambda>a0. let gx = cuda_empty_like mem a0 in
     (case v of
        PyNumber c \<Rightarrow>
          bind_err (math_log lib c) (\<lambda>logv.
          bind_err (item x 0) (\<lambda>x0. bind_err (item gy 0) (\<lambda>g.
          bind_err (elementwise (size_nd gx) [gx, x0, g]
                      (\<lambda>i. logv * fpow lib c (data x0 ! i) * data g ! i)) (\<lambda>r.
          Inr [store gx r]))))
      | NdArray a \<Rightarrow>
          bind_err (item x 0) (\<lambda>x0. bind_err (item gy 0) (\<lambda>g.
          bind_err (elementwise (size_nd gx) [gx, x0, g, a]
                      (\<lambda>i. flog lib (data a ! i) * fpow lib (data a ! i) (data x0 ! i) *
                            data g ! i)) (\<lambda>r.
          Inr [store gx r])))
      | Other \<Rightarrow> Inl TypeError))"

section \<open>basic_math.py: the dispatch functions\<close>

text \<open>
  The second operand of a dispatch function is a graph value (a \<open>Variable\<close>, here the
  array it wraps) or anything else. The first is the \<open>Variable\<close> on which the operator
  slot is looked up. A dispatch function constructs an operation instance and applies it
  to graph values: the model returns the constructed instance with the arguments it is
  applied to, or the error raised before the instance exists; \<open>call_cpu\<close> below is the
  application itself.
\<close>

datatype operand = Variable "real ndarray" | Constant const

type_synonym application = "func \<times> real ndarray list"


definition add :: "real ndarray \<Rightarrow> operand \<Rightarrow> py_error + application" where
  "add lhs rhs =
     (case rhs of
        Variable r \<Rightarrow> Inr (Add, [lhs, r])
      | Constant c \<Rightarrow> Inr (AddConstant c, [lhs]))"

definition sub :: "real ndarray \<Rightarrow> operand \<Rightarrow> py_error + application" where
  "sub lhs rhs =
     (case rhs of
        Variable r \<Rightarrow> Inr (Sub, [lhs, r])
      | Constant c \<Rightarrow> bind_err (py_neg c) (\<lambda>nc. Inr (AddConstant nc, [lhs])))"

definition rsub :: "real ndarray \<Rightarrow> operand \<Rightarrow> py_error + application" where
  "rsub lhs rhs =
     (case rhs of
        Variable r \<Rightarrow> Inr (Sub, [r, lhs])
      | Constant c \<Rightarrow> Inr (SubFromConstant c, [lhs]))"

definition mul :: "real ndarray \<Rightarrow> operand \<Rightarrow> py_error + application" where
  "mul lhs rhs =
     (case rhs of
        Variable r \<Rightarrow> Inr (Mul, [lhs, r])
      | Constant c \<Rightarrow> Inr (MulConstant c, [lhs]))"

definition div_dispatch :: "mathlib \<Rightarrow> real ndarray \<Rightarrow> operand \<Rightarrow> py_error + application" where
  "div_dispatch lib lhs rhs =
     (case rhs of
        Variable r \<Rightarrow> Inr (Div, [lhs, r])
      | Constant c \<Rightarrow> bind_err (py_recip lib c) (\<lambda>rc. Inr (MulConstant rc, [lhs])))"

definition rdiv :: "real ndarray \<Rightarrow> operand \<Rightarrow> py_error + application" where
  "rdiv lhs rhs =
     (case rhs of
        Variable r \<Rightarrow> Inr (Div, [r, lhs])
      | Constant c \<Rightarrow> Inr (DivFromConstant c, [lhs]))"

definition pow :: "real ndarray \<Rightarrow> operand \<Rightarrow> py_error + application" where
  "pow lhs rhs =
     (case rhs of
        Variable r \<Rightarrow> Inr (PowVarVar None, [lhs, r])
      | Constant c \<Rightarrow> Inr (PowVarConst c, [lhs]))"

definition rpow :: "real ndarray \<Rightarrow> operand \<Rightarrow> py_error + application" where
  "rpow lhs rhs =
     (case rhs of
        Variable r \<Rightarrow> Inr (PowVarVar None, [r, lhs])
      | Constant c \<Rightarrow> Inr (PowConstVar c None, [lhs]))"

text \<open>
  Modelled from the spec: the graph framework's call convention (\<open>Function.__call__\<close> is
  not part of these files): applying an operation instance to graph values runs its
  forward computation on their arrays.
\<close>

definition call_cpu :: "mathlib \<Rightarrow> application \<Rightarrow> py_error + func \<times> real ndarray" where
  "call_cpu lib app = forward_cpu lib (fst app) (snd app)"




section \<open>Concrete instances\<close>

text \<open>
  A generator that yields the samples 0, 1, 2, ..., memory that holds 7 everywhere, the
  instance that \<^verbatim>\<open>Linear(3, 2, bias=0.5)\<close> builds from them in single precision, and a
  batch of four inputs with an output gradient.
\<close>

definition ex_normal :: "real \<Rightarrow> real \<Rightarrow> py_error + (nat \<Rightarrow> real)" where
  "ex_normal loc scale = Inr real"

definition ex_mem :: "nat \<Rightarrow> real" where
  "ex_mem k = 7"

definition ex_linear :: "real linear" where
  "ex_linear =
     \<lparr>W = \<lparr>nrows = 2, ncols = 3, elems = [0, 1, 2, 3, 4, 5]\<rparr>,
      gW = \<lparr>nrows = 2, ncols = 3, elems = [7, 7, 7, 7, 7, 7]\<rparr>,
      b = Some [1 / 2, 1 / 2],
      gb = Some [7, 7]\<rparr>"

definition ex_x :: "real ndarray" where
  "ex_x = \<lparr>shape = [4, 3], data = [1, 0, 0, 0, 1, 0, 0, 0, 1, 1, 1, 1]\<rparr>"

definition ex_gy :: "real matrix" where
  "ex_gy = \<lparr>nrows = 4, ncols = 2, elems = [1, 0, 0, 1, 1, 1, 2, 3]\<rparr>"

text \<open>An instance with four input features, an input of shape \<open>(2, 2, 2)\<close> and an output
  gradient for it.\<close>

definition ex_linear4 :: "real linear" where
  "ex_linear4 =
     \<lparr>W = \<lparr>nrows = 2, ncols = 4, elems = [1, 2, 0, 1, 0, 1, 3, 1]\<rparr>,
      gW = \<lparr>nrows = 2, ncols = 4, elems = [7, 7, 7, 7, 7, 7, 7, 7]\<rparr>,
      b = Some [1 / 2, 1 / 2],
      gb = Some [7, 7]\<rparr>"

definition ex_x3 :: "real ndarray" where
  "ex_x3 = \<lparr>shape = [2, 2, 2], data = [1, 2, 3, 4, 5, 6, 7, 8]\<rparr>"

definition ex_gy2 :: "real matrix" where
  "ex_gy2 = \<lparr>nrows = 2, ncols = 2, elems = [1, 0, 2, 1]\<rparr>"

text \<open>
  An instance with one weight whose accumulators hold \<open>2\<^sup>2\<^sup>4\<close>, and a pass with the
  input \<open>[[1]]\<close> and the output gradient \<open>[[1]]\<close>.
\<close>

definition big_linear :: "real linear" where
  "big_linear =
     \<lparr>W = \<lparr>nrows = 1, ncols = 1, elems = [1]\<rparr>,
      gW = \<lparr>nrows = 1, ncols = 1, elems = [16777216]\<rparr>,
      b = Some [0],
      gb = Some [16777216]\<rparr>"

definition big_mem :: "nat \<Rightarrow> real" where
  "big_mem k = 16777216"

definition one_x :: "real ndarray" where
  "one_x = \<lparr>shape = [1, 1], data = [1]\<rparr>"

definition one_gy :: "real matrix" where
  "one_gy = \<lparr>nrows = 1, ncols = 1, elems = [1]\<rparr>"


definition ex_v :: "real ndarray" where
  "ex_v = \<lparr>shape = [2], data = [1, 2]\<rparr>"

definition ex_g :: "real ndarray" where
  "ex_g = \<lparr>shape = [2], data = [5, 7]\<rparr>"


section \<open>Properties\<close>

subsection \<open>Matrices\<close>

lemma nrows_mk_matrix: "nrows (mk_matrix r c f) = r"
  by (simp add: mk_matrix_def)

lemma ncols_mk_matrix: "ncols (mk_matrix r c f) = c"
  by (simp add: mk_matrix_def)

lemma wf_mk_matrix: "wf_mat (mk_matrix r c f)"
  by (simp add: wf_mat_def mk_matrix_def)

lemma index_lt: "i < r \<Longrightarrow> j < c \<Longrightarrow> i * c + j < r * (c::nat)"
proof -
  assume "i < r" "j < c"
  then have "i * c + j < i * c + c" by simp
  also have "\<dots> = Suc i * c" by simp
  also from \<open>i < r\<close> have "\<dots> \<le> r * c" by (intro mult_le_mono1) simp
  finally show ?thesis .
qed

lemma mat_at_mk_matrix: "i < r \<Longrightarrow> j < c \<Longrightarrow> mat_at (mk_matrix r c f) i j = f i j"
  by (simp add: mat_at_def mk_matrix_def index_lt)

lemma mk_matrix_cong:
  "(\<And>i j. i < r \<Longrightarrow> j < c \<Longrightarrow> f i j = g i j) \<Longrightarrow> mk_matrix r c f = mk_matrix r c g"
proof -
  assume eq: "\<And>i j. i < r \<Longrightarrow> j < c \<Longrightarrow> f i j = g i j"
  have "f (k div c) (k mod c) = g (k div c) (k mod c)" if "k < r * c" for k
  proof -
    from that have c: "0 < c" by (cases c) simp_all
    from that have "k div c < r" by (simp add: less_mult_imp_div_less)
    with c show ?thesis by (intro eq) simp_all
  qed
  then show ?thesis by (simp add: mk_matrix_def)
qed

lemma mat_at_T: "i < ncols m \<Longrightarrow> j < nrows m \<Longrightarrow> mat_at (T m) i j = mat_at m j i"
  by (simp add: T_def mat_at_mk_matrix)

lemma mat_row_T: "i < ncols m \<Longrightarrow> mat_row (T m) i = map (\<lambda>l. mat_at m l i) [0..<nrows m]"
  by (simp add: mat_row_def T_def nrows_mk_matrix ncols_mk_matrix mat_at_mk_matrix)

lemma mat_col_T: "j < nrows m \<Longrightarrow> mat_col (T m) j = map (\<lambda>l. mat_at m j l) [0..<ncols m]"
  by (simp add: mat_col_def T_def nrows_mk_matrix ncols_mk_matrix mat_at_mk_matrix)

lemma mat_row_data:
  "mat_row \<lparr>nrows = n, ncols = k, elems = xs\<rparr> i = map (\<lambda>l. xs ! (i * k + l)) [0..<k]"
  by (simp add: mat_row_def mat_at_def)

lemma mat_col_data:
  "mat_col \<lparr>nrows = n, ncols = k, elems = xs\<rparr> j = map (\<lambda>l. xs ! (l * k + j)) [0..<n]"
  by (simp add: mat_col_def mat_at_def)

subsection \<open>Single precision\<close>

lemma round_even_of_int: "round_even (of_int z) = z"
  by (simp add: round_even_def)

text \<open>A value with a significand below \<open>2\<^sup>2\<^sup>4\<close> is representable: rounding keeps it.\<close>

lemma float32_dyadic:
  assumes m: "\<bar>m\<bar> < 2 ^ 24"
  shows "float32 (of_int m * 2 powr of_int e) = of_int m * 2 powr of_int e"
proof (cases "m = 0")
  case True
  then show ?thesis by (simp add: float32_def)
next
  case False
  let ?x = "of_int m * 2 powr of_int e :: real"
  define L where "L = \<lfloor>log 2 \<bar>of_int m :: real\<bar>\<rfloor>"
  have am: "1 \<le> \<bar>of_int m :: real\<bar>"
    using False by (simp flip: of_int_abs add: of_int_1_le_iff)
  have am': "\<bar>of_int m :: real\<bar> < 2 ^ 24"
    using m by (metis of_int_abs of_int_less_numeral_power_cancel_iff)
  have "log 2 \<bar>of_int m :: real\<bar> < 24"
    using am am' by (subst log_less_iff) (simp_all add: powr_numeral)
  then have L23: "L \<le> 23" unfolding L_def by linarith
  have x0: "?x \<noteq> 0" using False by simp
  have "log 2 \<bar>?x\<bar> = log 2 \<bar>of_int m :: real\<bar> + of_int e"
    using am False by (simp add: abs_mult log_mult log_powr)
  then have fl: "\<lfloor>log 2 \<bar>?x\<bar>\<rfloor> = L + e" unfolding L_def by simp
  define k where "k = nat (23 - L)"
  have k: "of_int (23 - L) = real k" unfolding k_def using L23 by simp
  have u: "(2::real) powr (of_int (L + e) - 23) = 2 powr of_int e / 2 ^ k"
  proof -
    have "(of_int (L + e) :: real) - 23 = of_int e - real k" using k by simp
    then have "(2::real) powr (of_int (L + e) - 23) = 2 powr (of_int e - real k)"
      by (rule arg_cong)
    also have "\<dots> = 2 powr of_int e / 2 ^ k" by (simp add: powr_diff powr_realpow)
    finally show ?thesis .
  qed
  have q: "?x / (2 powr of_int e / 2 ^ k) = of_int (m * 2 ^ k)"
    by simp
  have "float32 ?x =
      of_int (round_even (?x / 2 powr (of_int (L + e) - 23))) * 2 powr (of_int (L + e) - 23)"
    by (simp only: float32_def x0 if_False fl)
  also have "\<dots> = of_int (round_even (of_int (m * 2 ^ k))) * (2 powr of_int e / 2 ^ k)"
    by (simp only: u q)
  also have "\<dots> = of_int (m * 2 ^ k) * (2 powr of_int e / 2 ^ k)"
    by (simp only: round_even_of_int)
  also have "\<dots> = ?x" by simp
  finally show ?thesis .
qed

lemma float32_0: "float32 0 = 0"
  by (simp add: float32_def)

lemma float32_1: "float32 1 = 1"
  using float32_dyadic [of 1 0] by simp

lemma float32_numeral: "numeral n < (2 ^ 24 :: int) \<Longrightarrow> float32 (numeral n) = numeral n"
  using float32_dyadic [of "numeral n" 0] by simp

lemma float32_half: "float32 (1 / 2) = 1 / 2"
  using float32_dyadic [of 1 "- 1"] by (simp add: powr_minus)

lemma float32_halves:
  "numeral n < (2 ^ 24 :: int) \<Longrightarrow> float32 (numeral n / 2) = numeral n / 2"
  using float32_dyadic [of "numeral n" "- 1"] by (simp add: powr_minus field_simps)

text \<open>\<open>2\<^sup>2\<^sup>4 + 1\<close> lies halfway between two single-precision values and rounds to the
  even one, \<open>2\<^sup>2\<^sup>4\<close>; \<open>2\<^sup>2\<^sup>4 + 2\<close> is representable.\<close>

lemma float32_tie: "float32 16777217 = 16777216"
proof -
  have "\<lfloor>log 2 \<bar>16777217 :: real\<bar>\<rfloor> = 24"
    by (subst floor_log_eq_powr_iff) (simp_all add: powr_numeral powr_add)
  then show ?thesis
    by (simp add: float32_def round_even_def)
qed

lemma float32_above_tie: "float32 16777218 = 16777218"
  using float32_dyadic [of 8388609 1] by simp

lemmas float32_simps =
  float32_0 float32_1 float32_numeral float32_half float32_halves float32_tie float32_above_tie

lemma ieee_single_simps:
  "fl_add ieee_single u v = float32 (u + v)"
  "fl_dot ieee_single us vs =
     foldl (\<lambda>s p. float32 (s + float32 (fst p * snd p))) 0 (zip us vs)"
  "fl_sum ieee_single vs = foldl (\<lambda>s v. float32 (s + v)) 0 vs"
  "fl_const ieee_single c = float32 c"
  by (simp_all add: ieee_single_def)

subsection \<open>Linear: construction\<close>

lemma as_mat_ok:
  "shape x = n # ds \<Longrightarrow> 0 < n \<Longrightarrow>
   as_mat x = Inr \<lparr>nrows = n, ncols = prod_list ds, elems = data x\<rparr>"
  by (simp add: as_mat_def reshape2_def size_nd_def)

lemma Linear_init_result:
  assumes "Linear_init ops normal memW memb in_size out_size wscale bias nobias = Inr self"
  shows "0 < in_size \<and> nrows (W self) = out_size \<and> ncols (W self) = in_size \<and> wf_mat (W self) \<and>
         gW self = \<lparr>nrows = out_size, ncols = in_size, elems = map memW [0..<out_size * in_size]\<rparr> \<and>
         b self = (if nobias then None else Some (replicate out_size (fl_const ops bias))) \<and>
         gb self = (if nobias then None else Some (map memb [0..<out_size]))"
  using assms
  by (auto simp: Linear_init_def empty_like_def wf_mat_def Let_def split: if_splits sum.splits)

lemma upt_6: "[0..<6] = [0, 1, 2, 3, 4, 5]"
  by (simp add: upt_rec [of _ "numeral _"] upt_rec [of _ "Suc _"])

lemma upt_4: "[0..<4] = [0, 1, 2, 3]"
  by (simp add: upt_rec [of _ "numeral _"] upt_rec [of _ "Suc _"])

lemma upt_3: "[0..<3] = [0, 1, 2]"
  by (simp add: upt_rec [of _ "numeral _"] upt_rec [of _ "Suc _"])

lemma upt_2: "[0..<2] = [0, 1]"
  by (simp add: upt_rec [of _ "numeral _"] upt_rec [of _ "Suc _"])

lemma ex_linear_init:
  "Linear_init ieee_single ex_normal ex_mem ex_mem 3 2 1 (1 / 2) False = Inr ex_linear"
proof -
  have r: "replicate 2 (1 / 2 :: real) = [1 / 2, 1 / 2]"
    by (simp add: numeral_2_eq_2)
  show ?thesis
    by (simp add: Linear_init_def ex_normal_def ex_mem_def ex_linear_def empty_like_def Let_def
        ieee_single_simps float32_half r upt_2 upt_6)
qed

lemma Linear_backward_cpu_keeps:
  "W (fst (Linear_backward_cpu ops self x gy)) = W self \<and>
   b (fst (Linear_backward_cpu ops self x gy)) = b self \<and>
   (gb (fst (Linear_backward_cpu ops self x gy)) = None \<longleftrightarrow> gb self = None)"
  by (auto simp: Linear_backward_cpu_def Let_def split: list.splits sum.splits option.splits)

text \<open>
  C2 (as amended). \<^verbatim>\<open>__init__\<close> creates \<open>gb\<close> exactly when it creates \<open>b\<close>: the no-bias
  flag omits the two together, and without it both exist. \<open>gW\<close> is created in every
  configuration, with the shape of \<open>W\<close>, and \<open>gradient_names\<close> always lists it.
  \<open>backward_cpu\<close> keeps this, however it ends: it never creates or removes \<open>b\<close> or
  \<open>gb\<close>.
\<close>

theorem C2_accumulators_mirror_bias:
  "(Linear_init ops normal memW memb in_size out_size wscale bias nobias = Inr self \<longrightarrow>
      (b self = None \<longleftrightarrow> nobias) \<and> (gb self = None \<longleftrightarrow> b self = None) \<and>
      parameter_names self = (if nobias then [''W''] else [''W'', ''b'']) \<and>
      gradient_names self = (if nobias then [''gW''] else [''gW'', ''gb'']) \<and>
      nrows (gW self) = nrows (W self) \<and> ncols (gW self) = ncols (W self) \<and> wf_mat (gW self)) \<and>
   b (fst (Linear_backward_cpu ops s x gy)) = b s \<and>
   (gb (fst (Linear_backward_cpu ops s x gy)) = None \<longleftrightarrow> gb s = None) \<and>
   ''gW'' \<in> set (gradient_names (fst (Linear_backward_cpu ops s x gy)))"
proof (intro conjI impI)
  assume init: "Linear_init ops normal memW memb in_size out_size wscale bias nobias = Inr self"
  note r = Linear_init_result [OF init]
  from r show "b self = None \<longleftrightarrow> nobias" by simp
  from r show "gb self = None \<longleftrightarrow> b self = None" by simp
  from r show "parameter_names self = (if nobias then [''W''] else [''W'', ''b''])"
    by (simp add: parameter_names_def)
  from r show "gradient_names self = (if nobias then [''gW''] else [''gW'', ''gb''])"
    by (simp add: gradient_names_def)
  from r show "nrows (gW self) = nrows (W self)" by simp
  from r show "ncols (gW self) = ncols (W self)" by simp
  from r show "wf_mat (gW self)" by (simp add: wf_mat_def)
next
  show "b (fst (Linear_backward_cpu ops s x gy)) = b s"
    using Linear_backward_cpu_keeps [of ops s x gy] by simp
  show "gb (fst (Linear_backward_cpu ops s x gy)) = None \<longleftrightarrow> gb s = None"
    using Linear_backward_cpu_keeps [of ops s x gy] by simp
  show "''gW'' \<in> set (gradient_names (fst (Linear_backward_cpu ops s x gy)))"
    by (simp add: gradient_names_def)
qed

theorem C2_accumulators_mirror_bias_witness:
  "Linear_init ieee_single ex_normal ex_mem ex_mem 3 2 1 (1 / 2) False = Inr ex_linear \<and>
   b ex_linear \<noteq> None \<and> gb ex_linear \<noteq> None \<and>
   parameter_names ex_linear = [''W'', ''b''] \<and>
   gradient_names ex_linear = [''gW'', ''gb''] \<and>
   nrows (gW ex_linear) = 2 \<and> ncols (gW ex_linear) = 3 \<and>
   gb (fst (Linear_backward_cpu ieee_single ex_linear [ex_x] [ex_gy])) \<noteq> None \<and>
   b (fst (Linear_backward_cpu ieee_single ex_linear [ex_x] [ex_gy])) \<noteq> None"
proof -
  have w: "nrows (W ex_linear) = 2 \<and> ncols (W ex_linear) = 3 \<and> b ex_linear \<noteq> None \<and>
           gb ex_linear \<noteq> None"
    by (simp add: ex_linear_def)
  from w show ?thesis
    using ex_linear_init
      C2_accumulators_mirror_bias [of ieee_single ex_normal ex_mem ex_mem 3 2 1 "1 / 2" False
        ex_linear ex_linear "[ex_x]" "[ex_gy]"]
    by simp
qed

text \<open>
  The claim as stated fails: built with the no-bias flag, the instance has no \<open>b\<close> and no
  \<open>gb\<close>, yet \<open>gW\<close> is allocated (here over memory holding 7) and is the one gradient
  name.
\<close>

theorem C2_nobias_keeps_gW:
  "map_sum id b (Linear_init ieee_single ex_normal ex_mem ex_mem 1 1 1 0 True) = Inr None \<and>
   map_sum id gb (Linear_init ieee_single ex_normal ex_mem ex_mem 1 1 1 0 True) = Inr None \<and>
   map_sum id gradient_names (Linear_init ieee_single ex_normal ex_mem ex_mem 1 1 1 0 True)
     = Inr [''gW''] \<and>
   map_sum id gW (Linear_init ieee_single ex_normal ex_mem ex_mem 1 1 1 0 True)
     = Inr \<lparr>nrows = 1, ncols = 1, elems = [7]\<rparr>"
  by (simp add: Linear_init_def ex_normal_def ex_mem_def empty_like_def gradient_names_def)

subsection \<open>Linear: forward\<close>

lemma Linear_forward_cpu_value:
  assumes sh: "shape x = n # ds" and n: "0 < n" and k: "prod_list ds = ncols (W self)"
    and bl: "case b self of None \<Rightarrow> True | Some bv \<Rightarrow> length bv = nrows (W self)"
  shows "\<exists>y. Linear_forward_cpu ops self (x # xs) = Inr y \<and> nrows y = n \<and>
           ncols y = nrows (W self) \<and> wf_mat y \<and>
           (\<forall>i<n. \<forall>j<nrows (W self).
              mat_at y i j =
                (case b self of
                   None \<Rightarrow>
                     fl_dot ops (map (\<lambda>l. data x ! (i * ncols (W self) + l)) [0..<ncols (W self)])
                       (map (\<lambda>l. mat_at (W self) j l) [0..<ncols (W self)])
                 | Some bv \<Rightarrow>
                     fl_add ops
                       (fl_dot ops
                          (map (\<lambda>l. data x ! (i * ncols (W self) + l)) [0..<ncols (W self)])
                          (map (\<lambda>l. mat_at (W self) j l) [0..<ncols (W self)]))
                       (bv ! j)))"
proof -
  let ?k = "ncols (W self)" and ?o = "nrows (W self)"
  let ?xm = "\<lparr>nrows = n, ncols = ?k, elems = data x\<rparr>"
  let ?d = "\<lambda>i j. fl_dot ops (map (\<lambda>l. data x ! (i * ?k + l)) [0..<?k])
                (map (\<lambda>l. mat_at (W self) j l) [0..<?k])"
  have am: "as_mat x = Inr ?xm" using as_mat_ok [OF sh n] k by simp
  have "dot ops ?xm (T (W self)) =
      Inr (mk_matrix n ?o (\<lambda>i j. fl_dot ops (mat_row ?xm i) (mat_col (T (W self)) j)))"
    by (simp add: dot_def T_def nrows_mk_matrix ncols_mk_matrix)
  also have "mk_matrix n ?o (\<lambda>i j. fl_dot ops (mat_row ?xm i) (mat_col (T (W self)) j)) =
      mk_matrix n ?o ?d"
    by (rule mk_matrix_cong) (simp add: mat_row_data mat_col_T)
  finally have d: "dot ops ?xm (T (W self)) = Inr (mk_matrix n ?o ?d)" .
  show ?thesis
  proof (cases "b self")
    case None
    then have "Linear_forward_cpu ops self (x # xs) = Inr (mk_matrix n ?o ?d)"
      by (simp add: Linear_forward_cpu_def am d)
    then show ?thesis using None
      by (simp add: nrows_mk_matrix ncols_mk_matrix wf_mk_matrix mat_at_mk_matrix)
  next
    case (Some bv)
    with bl have len: "length bv = ?o" by simp
    let ?y = "mk_matrix n ?o (\<lambda>i j. fl_add ops (mat_at (mk_matrix n ?o ?d) i j) (bv ! j))"
    have "iadd_rowvec ops (mk_matrix n ?o ?d) bv = Inr ?y"
      by (simp add: iadd_rowvec_def len nrows_mk_matrix ncols_mk_matrix)
    then have "Linear_forward_cpu ops self (x # xs) = Inr ?y"
      using Some by (simp add: Linear_forward_cpu_def am d)
    then show ?thesis using Some
      by (simp add: nrows_mk_matrix ncols_mk_matrix wf_mk_matrix mat_at_mk_matrix)
  qed
qed

text \<open>On an empty batch \<^verbatim>\<open>_as_mat\<close> divides by zero, and so do forward and backward.\<close>

lemma Linear_empty_batch:
  "shape x = 0 # ds \<Longrightarrow>
   Linear_forward_cpu ops self (x # xs) = Inl ZeroDivisionError \<and>
   Linear_backward_cpu ops self (x # xs) gy = (self, Inl ZeroDivisionError)"
  by (simp add: Linear_forward_cpu_def Linear_backward_cpu_def as_mat_def)

text \<open>
  C6 (as amended). On a two-dimensional input of shape \<open>(batch, in_size)\<close> with at least
  one row, \<open>forward_cpu\<close> returns an array of shape \<open>(batch, out_size)\<close>. Its entry \<open>(i, j)\<close>
  is the inner product of row \<open>i\<close> of the input with row \<open>j\<close> of \<open>W\<close>, as the library's
  \<open>dot\<close> computes it in floating point, to which \<open>b[j]\<close> is added by one rounded addition
  when the bias is present. In particular, for the instance built by
  \<^verbatim>\<open>Linear(3, 2, bias=0.5)\<close> and any batch of shape \<open>(4, 3)\<close>, the output has shape
  \<open>(4, 2)\<close> and every entry is that inner product plus \<open>float32(0.5)\<close>.
\<close>

theorem C6_forward_affine:
  "(shape x = [n, ncols (W self)] \<and> 0 < n \<and>
    (case b self of None \<Rightarrow> True | Some bv \<Rightarrow> length bv = nrows (W self)) \<longrightarrow>
    (\<exists>y. Linear_forward_cpu ops self [x] = Inr y \<and> nrows y = n \<and> ncols y = nrows (W self) \<and>
       wf_mat y \<and>
       (\<forall>i<n. \<forall>j<nrows (W self).
          mat_at y i j =
            (case b self of
               None \<Rightarrow>
                 fl_dot ops (map (\<lambda>l. data x ! (i * ncols (W self) + l)) [0..<ncols (W self)])
                   (map (\<lambda>l. mat_at (W self) j l) [0..<ncols (W self)])
             | Some bv \<Rightarrow>
                 fl_add ops
                   (fl_dot ops
                      (map (\<lambda>l. data x ! (i * ncols (W self) + l)) [0..<ncols (W self)])
                      (map (\<lambda>l. mat_at (W self) j l) [0..<ncols (W self)]))
                   (bv ! j))))) \<and>
   (Linear_init ops normal memW memb 3 2 wscale (1 / 2) False = Inr self' \<and>
    shape x' = [4, 3] \<longrightarrow>
    (\<exists>y. Linear_forward_cpu ops self' [x'] = Inr y \<and> nrows y = 4 \<and> ncols y = 2 \<and> wf_mat y \<and>
       (\<forall>i<4. \<forall>j<2.
          mat_at y i j =
            fl_add ops
              (fl_dot ops (map (\<lambda>l. data x' ! (i * 3 + l)) [0..<3])
                 (map (\<lambda>l. mat_at (W self') j l) [0..<3]))
              (fl_const ops (1 / 2)))))"
proof (intro conjI impI)
  assume h: "shape x = [n, ncols (W self)] \<and> 0 < n \<and>
    (case b self of None \<Rightarrow> True | Some bv \<Rightarrow> length bv = nrows (W self))"
  then show "\<exists>y. Linear_forward_cpu ops self [x] = Inr y \<and> nrows y = n \<and>
       ncols y = nrows (W self) \<and> wf_mat y \<and>
       (\<forall>i<n. \<forall>j<nrows (W self).
          mat_at y i j =
            (case b self of
               None \<Rightarrow>
                 fl_dot ops (map (\<lambda>l. data x ! (i * ncols (W self) + l)) [0..<ncols (W self)])
                   (map (\<lambda>l. mat_at (W self) j l) [0..<ncols (W self)])
             | Some bv \<Rightarrow>
                 fl_add ops
                   (fl_dot ops
                      (map (\<lambda>l. data x ! (i * ncols (W self) + l)) [0..<ncols (W self)])
                      (map (\<lambda>l. mat_at (W self) j l) [0..<ncols (W self)]))
                   (bv ! j)))"
    by (intro Linear_forward_cpu_value [where ds = "[ncols (W self)]"]) simp_all
next
  assume h: "Linear_init ops normal memW memb 3 2 wscale (1 / 2) False = Inr self' \<and>
    shape x' = [4, 3]"
  then have init: "Linear_init ops normal memW memb 3 2 wscale (1 / 2) False = Inr self'"
    by simp
  note r = Linear_init_result [OF init]
  from r have bv: "b self' = Some (replicate 2 (fl_const ops (1 / 2)))" by simp
  from r have d: "ncols (W self') = 3" "nrows (W self') = 2" by simp_all
  have sh: "shape x' = 4 # [3]" using h by simp
  have bl: "case b self' of None \<Rightarrow> True | Some bv \<Rightarrow> length bv = nrows (W self')"
    by (simp add: bv d)
  from Linear_forward_cpu_value [OF sh _ _ bl, of ops "[]", unfolded d bv option.case]
  obtain y where y: "Linear_forward_cpu ops self' [x'] = Inr y" "nrows y = 4" "ncols y = 2"
      "wf_mat y"
      "\<forall>i<4. \<forall>j<2.
          mat_at y i j =
            fl_add ops
              (fl_dot ops (map (\<lambda>l. data x' ! (i * 3 + l)) [0..<3])
                 (map (\<lambda>l. mat_at (W self') j l) [0..<3]))
              (replicate 2 (fl_const ops (1 / 2)) ! j)"
    by auto
  have "mat_at y i j =
      fl_add ops
        (fl_dot ops (map (\<lambda>l. data x' ! (i * 3 + l)) [0..<3])
           (map (\<lambda>l. mat_at (W self') j l) [0..<3]))
        (fl_const ops (1 / 2))"
    if "i < 4" "j < 2" for i j
    using y(5) [rule_format, OF that] that by simp
  with y show "\<exists>y. Linear_forward_cpu ops self' [x'] = Inr y \<and> nrows y = 4 \<and> ncols y = 2 \<and>
       wf_mat y \<and>
       (\<forall>i<4. \<forall>j<2.
          mat_at y i j =
            fl_add ops
              (fl_dot ops (map (\<lambda>l. data x' ! (i * 3 + l)) [0..<3])
                 (map (\<lambda>l. mat_at (W self') j l) [0..<3]))
              (fl_const ops (1 / 2)))"
    by blast
qed

theorem C6_forward_affine_witness:
  "shape ex_x = [4, ncols (W ex_linear)] \<and>
   Linear_init ieee_single ex_normal ex_mem ex_mem 3 2 1 (1 / 2) False = Inr ex_linear \<and>
   (\<exists>y. Linear_forward_cpu ieee_single ex_linear [ex_x] = Inr y \<and> nrows y = 4 \<and> ncols y = 2 \<and>
      mat_at y 0 0 = 1 / 2 \<and> mat_at y 0 1 = 7 / 2 \<and> mat_at y 1 0 = 3 / 2 \<and>
      mat_at y 3 0 = 7 / 2 \<and> mat_at y 3 1 = 25 / 2)"
proof -
  have h: "shape ex_x = [4, ncols (W ex_linear)] \<and> (0::nat) < 4 \<and>
      (case b ex_linear of None \<Rightarrow> True | Some bv \<Rightarrow> length bv = nrows (W ex_linear))"
    by (simp add: ex_x_def ex_linear_def)
  have h': "shape ex_x = [4, 3]"
    by (simp add: ex_x_def)
  from C6_forward_affine [of ex_x 4 ex_linear ieee_single ex_normal ex_mem ex_mem 1 ex_linear ex_x]
    h h' ex_linear_init
  obtain y where y: "Linear_forward_cpu ieee_single ex_linear [ex_x] = Inr y" "nrows y = 4"
    "ncols y = 2"
    "\<forall>i<4. \<forall>j<2. mat_at y i j =
        fl_add ieee_single
          (fl_dot ieee_single (map (\<lambda>l. data ex_x ! (i * 3 + l)) [0..<3])
             (map (\<lambda>l. mat_at (W ex_linear) j l) [0..<3]))
          (fl_const ieee_single (1 / 2))"
    by blast
  note ev = upt_3 ex_x_def ex_linear_def mat_at_def ieee_single_simps float32_simps
  have "mat_at y 0 0 = 1 / 2"
    using y(4) [rule_format, of 0 0] by (simp add: ev)
  moreover have "mat_at y 0 1 = 7 / 2"
    using y(4) [rule_format, of 0 1] by (simp add: ev)
  moreover have "mat_at y 1 0 = 3 / 2"
    using y(4) [rule_format, of 1 0] by (simp add: ev)
  moreover have "mat_at y 3 0 = 7 / 2"
    using y(4) [rule_format, of 3 0] by (simp add: ev)
  moreover have "mat_at y 3 1 = 25 / 2"
    using y(4) [rule_format, of 3 1] by (simp add: ev)
  ultimately show ?thesis using y h ex_linear_init by simp
qed

text \<open>
  The claim as stated fails on an empty batch: for an input of shape \<open>(0, 3)\<close>, which is
  two-dimensional with \<open>in_size\<close> columns, \<open>forward_cpu\<close> raises ZeroDivisionError and
  returns no array.
\<close>

theorem C6_empty_batch_raises:
  "Linear_forward_cpu ieee_single ex_linear [\<lparr>shape = [0, 3], data = []\<rparr>] =
     Inl ZeroDivisionError"
  by (simp add: Linear_forward_cpu_def as_mat_def)

subsection \<open>Linear: backward\<close>

lemma Linear_backward_cpu_step:
  assumes sh: "shape x = n # ds" and n: "0 < n" and k: "prod_list ds = ncols (W self)"
    and gr: "nrows (gW self) = nrows (W self)" and gc: "ncols (gW self) = ncols (W self)"
    and yr: "nrows gy = n" and yc: "ncols gy = nrows (W self)"
    and gl: "case gb self of None \<Rightarrow> True | Some g \<Rightarrow> length g = nrows (W self)"
  shows "Linear_backward_cpu ops self (x # xs) (gy # gys) =
    (self\<lparr>gW := mk_matrix (nrows (W self)) (ncols (W self))
              (\<lambda>p i. fl_add ops (mat_at (gW self) p i)
                 (fl_dot ops (map (\<lambda>m. mat_at gy m p) [0..<n])
                    (map (\<lambda>m. data x ! (m * ncols (W self) + i)) [0..<n]))),
          gb := map_option
              (\<lambda>g. map (\<lambda>p. fl_add ops (g ! p) (fl_sum ops (map (\<lambda>m. mat_at gy m p) [0..<n])))
                     [0..<nrows (W self)])
              (gb self)\<rparr>,
     Inr \<lparr>shape = shape x,
          data = map (\<lambda>q. fl_dot ops
                           (map (\<lambda>p. mat_at gy (q div ncols (W self)) p) [0..<nrows (W self)])
                           (map (\<lambda>p. mat_at (W self) p (q mod ncols (W self)))
                              [0..<nrows (W self)]))
                   [0..<n * ncols (W self)]\<rparr>)"
proof -
  let ?k = "ncols (W self)" and ?o = "nrows (W self)"
  let ?xm = "\<lparr>nrows = n, ncols = ?k, elems = data x\<rparr>"
  let ?c = "\<lambda>p i. fl_dot ops (map (\<lambda>m. mat_at gy m p) [0..<n])
                (map (\<lambda>m. data x ! (m * ?k + i)) [0..<n])"
  let ?gW1 = "mk_matrix ?o ?k (\<lambda>p i. fl_add ops (mat_at (gW self) p i) (?c p i))"
  have am: "as_mat x = Inr ?xm" using as_mat_ok [OF sh n] k by simp
  have "dot ops (T gy) ?xm =
      Inr (mk_matrix ?o ?k (\<lambda>p i. fl_dot ops (mat_row (T gy) p) (mat_col ?xm i)))"
    by (simp add: dot_def T_def nrows_mk_matrix ncols_mk_matrix yr yc)
  also have "mk_matrix ?o ?k (\<lambda>p i. fl_dot ops (mat_row (T gy) p) (mat_col ?xm i)) =
      mk_matrix ?o ?k ?c"
    by (rule mk_matrix_cong) (simp add: mat_row_T mat_col_data yr yc)
  finally have d1: "dot ops (T gy) ?xm = Inr (mk_matrix ?o ?k ?c)" .
  have "iadd_mat ops (gW self) (mk_matrix ?o ?k ?c) =
          Inr (mk_matrix ?o ?k
                 (\<lambda>p i. fl_add ops (mat_at (gW self) p i) (mat_at (mk_matrix ?o ?k ?c) p i)))"
    by (simp add: iadd_mat_def gr gc nrows_mk_matrix ncols_mk_matrix)
  also have "mk_matrix ?o ?k
       (\<lambda>p i. fl_add ops (mat_at (gW self) p i) (mat_at (mk_matrix ?o ?k ?c) p i)) = ?gW1"
    by (rule mk_matrix_cong) (simp add: mat_at_mk_matrix)
  finally have ia: "iadd_mat ops (gW self) (mk_matrix ?o ?k ?c) = Inr ?gW1" .
  let ?gb1 = "map_option
     (\<lambda>g. map (\<lambda>p. fl_add ops (g ! p) (fl_sum ops (map (\<lambda>m. mat_at gy m p) [0..<n]))) [0..<?o])
     (gb self)"
  have gbs: "(case gb self of None \<Rightarrow> Inr None
              | Some g \<Rightarrow> (case iadd_vec ops g (sum0 ops gy) of
                            Inl e \<Rightarrow> Inl e | Inr g1 \<Rightarrow> Inr (Some g1)))
             = Inr ?gb1"
  proof (cases "gb self")
    case None
    then show ?thesis by simp
  next
    case (Some g)
    with gl have len: "length g = ?o" by simp
    have "iadd_vec ops g (sum0 ops gy) =
        Inr (map (\<lambda>p. fl_add ops (g ! p) (sum0 ops gy ! p)) [0..<?o])"
      by (simp add: iadd_vec_def sum0_def len yc)
    also have "map (\<lambda>p. fl_add ops (g ! p) (sum0 ops gy ! p)) [0..<?o]
             = map (\<lambda>p. fl_add ops (g ! p) (fl_sum ops (map (\<lambda>m. mat_at gy m p) [0..<n])))
                 [0..<?o]"
      by (simp add: sum0_def mat_col_def yr yc)
    finally show ?thesis using Some by simp
  qed
  have "dot ops gy (W self) =
     Inr (mk_matrix n ?k (\<lambda>m i. fl_dot ops (mat_row gy m) (mat_col (W self) i)))"
    by (simp add: dot_def yr yc)
  then have d2: "dot ops gy (W self) =
     Inr (mk_matrix n ?k (\<lambda>m i. fl_dot ops (map (\<lambda>p. mat_at gy m p) [0..<?o])
                                   (map (\<lambda>p. mat_at (W self) p i) [0..<?o])))"
    by (simp add: mat_row_def mat_col_def yc)
  have pr: "prod_list (shape x) = n * ?k" using sh k by simp
  show ?thesis
    unfolding Linear_backward_cpu_def
    by (simp add: am d1 ia gbs d2 reshape_nd_def nrows_mk_matrix ncols_mk_matrix pr Let_def)
      (simp add: mk_matrix_def)
qed

text \<open>The same, entry by entry.\<close>

lemma Linear_backward_cpu_entries:
  assumes sh: "shape x = n # ds" and n: "0 < n" and k: "prod_list ds = ncols (W self)"
    and gr: "nrows (gW self) = nrows (W self)" and gc: "ncols (gW self) = ncols (W self)"
    and yr: "nrows gy = n" and yc: "ncols gy = nrows (W self)"
    and gl: "case gb self of None \<Rightarrow> True | Some g \<Rightarrow> length g = nrows (W self)"
  shows "\<exists>s1 gx. Linear_backward_cpu ops self (x # xs) (gy # gys) = (s1, Inr gx) \<and>
     W s1 = W self \<and> b s1 = b self \<and>
     nrows (gW s1) = nrows (W self) \<and> ncols (gW s1) = ncols (W self) \<and> wf_mat (gW s1) \<and>
     (\<forall>p<nrows (W self). \<forall>i<ncols (W self).
        mat_at (gW s1) p i =
          fl_add ops (mat_at (gW self) p i)
            (fl_dot ops (map (\<lambda>m. mat_at gy m p) [0..<n])
               (map (\<lambda>m. data x ! (m * ncols (W self) + i)) [0..<n]))) \<and>
     (case gb self of
        None \<Rightarrow> gb s1 = None
      | Some g \<Rightarrow> (\<exists>g1. gb s1 = Some g1 \<and> length g1 = nrows (W self) \<and>
                    (\<forall>p<nrows (W self).
                       g1 ! p = fl_add ops (g ! p)
                                  (fl_sum ops (map (\<lambda>m. mat_at gy m p) [0..<n]))))) \<and>
     shape gx = shape x \<and> length (data gx) = n * ncols (W self) \<and>
     (\<forall>m<n. \<forall>i<ncols (W self).
        data gx ! (m * ncols (W self) + i) =
          fl_dot ops (map (\<lambda>p. mat_at gy m p) [0..<nrows (W self)])
            (map (\<lambda>p. mat_at (W self) p i) [0..<nrows (W self)]))"
proof -
  let ?k = "ncols (W self)" and ?o = "nrows (W self)"
  let ?s1 = "self\<lparr>gW := mk_matrix ?o ?k
              (\<lambda>p i. fl_add ops (mat_at (gW self) p i)
                 (fl_dot ops (map (\<lambda>m. mat_at gy m p) [0..<n])
                    (map (\<lambda>m. data x ! (m * ?k + i)) [0..<n]))),
          gb := map_option
              (\<lambda>g. map (\<lambda>p. fl_add ops (g ! p) (fl_sum ops (map (\<lambda>m. mat_at gy m p) [0..<n])))
                     [0..<?o])
              (gb self)\<rparr>"
  let ?gx = "\<lparr>shape = shape x,
          data = map (\<lambda>q. fl_dot ops (map (\<lambda>p. mat_at gy (q div ?k) p) [0..<?o])
                           (map (\<lambda>p. mat_at (W self) p (q mod ?k)) [0..<?o]))
                   [0..<n * ?k]\<rparr>"
  have st: "Linear_backward_cpu ops self (x # xs) (gy # gys) = (?s1, Inr ?gx)"
    by (rule Linear_backward_cpu_step [OF assms])
  have acc: "\<forall>p<?o. \<forall>i<?k. mat_at (gW ?s1) p i =
          fl_add ops (mat_at (gW self) p i)
            (fl_dot ops (map (\<lambda>m. mat_at gy m p) [0..<n])
               (map (\<lambda>m. data x ! (m * ?k + i)) [0..<n]))"
    by (simp add: mat_at_mk_matrix)
  have accb: "case gb self of
        None \<Rightarrow> gb ?s1 = None
      | Some g \<Rightarrow> (\<exists>g1. gb ?s1 = Some g1 \<and> length g1 = ?o \<and>
                    (\<forall>p<?o. g1 ! p = fl_add ops (g ! p)
                                        (fl_sum ops (map (\<lambda>m. mat_at gy m p) [0..<n]))))"
    by (cases "gb self") simp_all
  have gx: "\<forall>m<n. \<forall>i<?k. data ?gx ! (m * ?k + i) =
          fl_dot ops (map (\<lambda>p. mat_at gy m p) [0..<?o])
            (map (\<lambda>p. mat_at (W self) p i) [0..<?o])"
    by (simp add: index_lt)
  have rest: "W ?s1 = W self \<and> b ?s1 = b self \<and> nrows (gW ?s1) = ?o \<and> ncols (gW ?s1) = ?k \<and>
      wf_mat (gW ?s1) \<and> shape ?gx = shape x \<and> length (data ?gx) = n * ?k"
    by (simp add: nrows_mk_matrix ncols_mk_matrix wf_mk_matrix)
  show ?thesis
    apply (rule exI [of _ ?s1])
    apply (rule exI [of _ ?gx])
    using st acc accb gx rest apply blast
    done
qed

text \<open>
  C1 (as amended). Two successive calls of \<open>backward_cpu\<close> on the same instance, each for
  a pass that forward accepted (non-empty batch, \<open>in_size\<close> features, output gradient of
  shape \<open>(batch, out_size)\<close>), both return. Afterwards every entry of \<open>gW\<close> is its value
  before the two calls to which the two contributions \<open>gy\<^sup>T \<cdot> X_flat\<close> have been added one
  after the other, each by one rounded floating-point addition, and every entry of \<open>gb\<close>,
  when it exists, has received the two column sums of \<open>gy\<close> in the same way; \<open>W\<close> and \<open>b\<close>
  are unchanged. The input gradient of each call has the input's shape and holds
  \<open>gy \<cdot> W\<close>, and it is the same whatever the accumulators contain.
\<close>

theorem C1_backward_accumulates:
  assumes x1: "shape x1 = n1 # ds1" "0 < n1" "prod_list ds1 = ncols (W self)"
    and x2: "shape x2 = n2 # ds2" "0 < n2" "prod_list ds2 = ncols (W self)"
    and gw: "nrows (gW self) = nrows (W self)" "ncols (gW self) = ncols (W self)"
    and gy1: "nrows gy1 = n1" "ncols gy1 = nrows (W self)"
    and gy2: "nrows gy2 = n2" "ncols gy2 = nrows (W self)"
    and gl: "case gb self of None \<Rightarrow> True | Some g \<Rightarrow> length g = nrows (W self)"
  shows "\<exists>s1 gx1 s2 gx2.
     Linear_backward_cpu ops self [x1] [gy1] = (s1, Inr gx1) \<and>
     Linear_backward_cpu ops s1 [x2] [gy2] = (s2, Inr gx2) \<and>
     W s2 = W self \<and> b s2 = b self \<and>
     nrows (gW s2) = nrows (W self) \<and> ncols (gW s2) = ncols (W self) \<and> wf_mat (gW s2) \<and>
     (\<forall>p<nrows (W self). \<forall>i<ncols (W self).
        mat_at (gW s2) p i =
          fl_add ops
            (fl_add ops (mat_at (gW self) p i)
               (fl_dot ops (map (\<lambda>m. mat_at gy1 m p) [0..<n1])
                  (map (\<lambda>m. data x1 ! (m * ncols (W self) + i)) [0..<n1])))
            (fl_dot ops (map (\<lambda>m. mat_at gy2 m p) [0..<n2])
               (map (\<lambda>m. data x2 ! (m * ncols (W self) + i)) [0..<n2]))) \<and>
     (case gb self of
        None \<Rightarrow> gb s2 = None
      | Some g \<Rightarrow> (\<exists>g2. gb s2 = Some g2 \<and> length g2 = nrows (W self) \<and>
                    (\<forall>p<nrows (W self).
                       g2 ! p =
                         fl_add ops
                           (fl_add ops (g ! p) (fl_sum ops (map (\<lambda>m. mat_at gy1 m p) [0..<n1])))
                           (fl_sum ops (map (\<lambda>m. mat_at gy2 m p) [0..<n2]))))) \<and>
     shape gx1 = shape x1 \<and> length (data gx1) = n1 * ncols (W self) \<and>
     (\<forall>m<n1. \<forall>i<ncols (W self).
        data gx1 ! (m * ncols (W self) + i) =
          fl_dot ops (map (\<lambda>p. mat_at gy1 m p) [0..<nrows (W self)])
            (map (\<lambda>p. mat_at (W self) p i) [0..<nrows (W self)])) \<and>
     shape gx2 = shape x2 \<and> length (data gx2) = n2 * ncols (W self) \<and>
     (\<forall>m<n2. \<forall>i<ncols (W self).
        data gx2 ! (m * ncols (W self) + i) =
          fl_dot ops (map (\<lambda>p. mat_at gy2 m p) [0..<nrows (W self)])
            (map (\<lambda>p. mat_at (W self) p i) [0..<nrows (W self)])) \<and>
     (\<forall>G Gb. nrows G = nrows (W self) \<and> ncols G = ncols (W self) \<and>
        (case Gb of None \<Rightarrow> True | Some g \<Rightarrow> length g = nrows (W self)) \<longrightarrow>
        snd (Linear_backward_cpu ops (self\<lparr>gW := G, gb := Gb\<rparr>) [x1] [gy1]) = Inr gx1 \<and>
        snd (Linear_backward_cpu ops (self\<lparr>gW := G, gb := Gb\<rparr>) [x2] [gy2]) = Inr gx2)"
proof -
  let ?k = "ncols (W self)" and ?o = "nrows (W self)"
  let ?c1 = "\<lambda>p i. fl_dot ops (map (\<lambda>m. mat_at gy1 m p) [0..<n1])
                 (map (\<lambda>m. data x1 ! (m * ?k + i)) [0..<n1])"
  let ?c2 = "\<lambda>p i. fl_dot ops (map (\<lambda>m. mat_at gy2 m p) [0..<n2])
                 (map (\<lambda>m. data x2 ! (m * ?k + i)) [0..<n2])"
  let ?t1 = "\<lambda>p. fl_sum ops (map (\<lambda>m. mat_at gy1 m p) [0..<n1])"
  let ?t2 = "\<lambda>p. fl_sum ops (map (\<lambda>m. mat_at gy2 m p) [0..<n2])"
  let ?g1 = "\<lambda>m i. fl_dot ops (map (\<lambda>p. mat_at gy1 m p) [0..<?o])
                 (map (\<lambda>p. mat_at (W self) p i) [0..<?o])"
  let ?g2 = "\<lambda>m i. fl_dot ops (map (\<lambda>p. mat_at gy2 m p) [0..<?o])
                 (map (\<lambda>p. mat_at (W self) p i) [0..<?o])"
  from Linear_backward_cpu_entries [OF x1 gw gy1 gl, of ops "[]" "[]"]
  obtain s1 gx1 where c1: "Linear_backward_cpu ops self [x1] [gy1] = (s1, Inr gx1)"
    and k1: "W s1 = W self" "b s1 = b self" "nrows (gW s1) = ?o" "ncols (gW s1) = ?k"
    and a1: "\<forall>p<?o. \<forall>i<?k. mat_at (gW s1) p i = fl_add ops (mat_at (gW self) p i) (?c1 p i)"
    and b1: "case gb self of
        None \<Rightarrow> gb s1 = None
      | Some g \<Rightarrow> (\<exists>g1. gb s1 = Some g1 \<and> length g1 = ?o \<and>
                    (\<forall>p<?o. g1 ! p = fl_add ops (g ! p) (?t1 p)))"
    and g1: "shape gx1 = shape x1" "length (data gx1) = n1 * ?k"
      "\<forall>m<n1. \<forall>i<?k. data gx1 ! (m * ?k + i) = ?g1 m i"
    by blast
  have gl1: "case gb s1 of None \<Rightarrow> True | Some g \<Rightarrow> length g = ?o"
    using b1 by (cases "gb self") auto
  from Linear_backward_cpu_entries [of x2 n2 ds2 s1 gy2 ops "[]" "[]", unfolded k1(1) k1(2),
      OF x2 k1(3) k1(4) gy2 gl1]
  obtain s2 gx2 where c2: "Linear_backward_cpu ops s1 [x2] [gy2] = (s2, Inr gx2)"
    and k2: "W s2 = W self" "b s2 = b self" "nrows (gW s2) = ?o" "ncols (gW s2) = ?k"
      "wf_mat (gW s2)"
    and a2: "\<forall>p<?o. \<forall>i<?k. mat_at (gW s2) p i = fl_add ops (mat_at (gW s1) p i) (?c2 p i)"
    and b2: "case gb s1 of
        None \<Rightarrow> gb s2 = None
      | Some g \<Rightarrow> (\<exists>g2. gb s2 = Some g2 \<and> length g2 = ?o \<and>
                    (\<forall>p<?o. g2 ! p = fl_add ops (g ! p) (?t2 p)))"
    and g2: "shape gx2 = shape x2" "length (data gx2) = n2 * ?k"
      "\<forall>m<n2. \<forall>i<?k. data gx2 ! (m * ?k + i) = ?g2 m i"
    by blast
  have acc: "\<forall>p<?o. \<forall>i<?k. mat_at (gW s2) p i =
          fl_add ops (fl_add ops (mat_at (gW self) p i) (?c1 p i)) (?c2 p i)"
    using a1 a2 by simp
  have accb: "case gb self of
        None \<Rightarrow> gb s2 = None
      | Some g \<Rightarrow> (\<exists>g2. gb s2 = Some g2 \<and> length g2 = ?o \<and>
                    (\<forall>p<?o. g2 ! p = fl_add ops (fl_add ops (g ! p) (?t1 p)) (?t2 p)))"
  proof (cases "gb self")
    case None
    with b1 b2 show ?thesis by simp
  next
    case (Some g)
    with b1 obtain h1 where h1: "gb s1 = Some h1" "length h1 = ?o"
      "\<forall>p<?o. h1 ! p = fl_add ops (g ! p) (?t1 p)"
      by auto
    with b2 obtain h2 where h2: "gb s2 = Some h2" "length h2 = ?o"
      "\<forall>p<?o. h2 ! p = fl_add ops (h1 ! p) (?t2 p)"
      by auto
    from h1 h2 Some show ?thesis by simp
  qed
  have ind: "snd (Linear_backward_cpu ops (self\<lparr>gW := G, gb := Gb\<rparr>) [x1] [gy1]) = Inr gx1 \<and>
             snd (Linear_backward_cpu ops (self\<lparr>gW := G, gb := Gb\<rparr>) [x2] [gy2]) = Inr gx2"
    if G: "nrows G = ?o \<and> ncols G = ?k \<and> (case Gb of None \<Rightarrow> True | Some g \<Rightarrow> length g = ?o)"
    for G Gb
  proof -
    let ?t = "self\<lparr>gW := G, gb := Gb\<rparr>"
    let ?r1 = "Inr \<lparr>shape = shape x1,
          data = map (\<lambda>q. ?g1 (q div ?k) (q mod ?k)) [0..<n1 * ?k]\<rparr> :: py_error + 'a ndarray"
    let ?r2 = "Inr \<lparr>shape = shape x2,
          data = map (\<lambda>q. ?g2 (q div ?k) (q mod ?k)) [0..<n2 * ?k]\<rparr> :: py_error + 'a ndarray"
    have u1: "snd (Linear_backward_cpu ops self [x1] [gy1]) = ?r1"
      by (simp add: Linear_backward_cpu_step [OF x1 gw gy1 gl])
    have t1: "snd (Linear_backward_cpu ops ?t [x1] [gy1]) = ?r1"
      using Linear_backward_cpu_step [of x1 n1 ds1 ?t gy1 ops "[]" "[]"] x1 gy1 G
      by (cases Gb) simp_all
    have u2: "snd (Linear_backward_cpu ops s1 [x2] [gy2]) = ?r2"
      by (simp add: Linear_backward_cpu_step [of x2 n2 ds2 s1 gy2, unfolded k1(1),
            OF x2 k1(3) k1(4) gy2 gl1] k1)
    have t2: "snd (Linear_backward_cpu ops ?t [x2] [gy2]) = ?r2"
      using Linear_backward_cpu_step [of x2 n2 ds2 ?t gy2 ops "[]" "[]"] x2 gy2 G
      by (cases Gb) simp_all
    from u1 t1 u2 t2 c1 c2 show ?thesis by simp
  qed
  show ?thesis
    apply (rule exI [of _ s1], rule exI [of _ gx1], rule exI [of _ s2], rule exI [of _ gx2])
    using c1 c2 k2 acc accb g1 g2 ind apply blast
    done
qed

theorem C1_backward_accumulates_witness:
  "shape ex_x = [4, 3] \<and> ncols (W ex_linear) = 3 \<and> nrows (W ex_linear) = 2 \<and>
   nrows (gW ex_linear) = 2 \<and> ncols (gW ex_linear) = 3 \<and>
   nrows ex_gy = 4 \<and> ncols ex_gy = 2 \<and> gb ex_linear = Some [7, 7] \<and>
   (\<exists>s1 gx1 s2 gx2.
      Linear_backward_cpu ieee_single ex_linear [ex_x] [ex_gy] = (s1, Inr gx1) \<and>
      Linear_backward_cpu ieee_single s1 [ex_x] [ex_gy] = (s2, Inr gx2) \<and>
      W s2 = W ex_linear \<and>
      mat_at (gW s2) 0 0 = 13 \<and> mat_at (gW s2) 1 2 = 15 \<and>
      (\<exists>g2. gb s2 = Some g2 \<and> g2 ! 0 = 15 \<and> g2 ! 1 = 17) \<and>
      shape gx1 = [4, 3] \<and> data gx1 ! 11 = 19 \<and> data gx1 ! 1 = 1 \<and>
      shape gx2 = [4, 3] \<and> data gx2 ! 11 = 19)"
proof -
  have hx: "shape ex_x = 4 # [3]" "(0::nat) < 4" "prod_list [3] = ncols (W ex_linear)"
    by (simp_all add: ex_x_def ex_linear_def)
  have hw: "nrows (gW ex_linear) = nrows (W ex_linear)" "ncols (gW ex_linear) = ncols (W ex_linear)"
    by (simp_all add: ex_linear_def)
  have hy: "nrows ex_gy = 4" "ncols ex_gy = nrows (W ex_linear)"
    by (simp_all add: ex_gy_def ex_linear_def)
  have hb: "case gb ex_linear of None \<Rightarrow> True | Some g \<Rightarrow> length g = nrows (W ex_linear)"
    by (simp add: ex_linear_def)
  have d: "ncols (W ex_linear) = 3" "nrows (W ex_linear) = 2" "gb ex_linear = Some [7, 7]"
    by (simp_all add: ex_linear_def)
  from C1_backward_accumulates [OF hx hx hw hy hy hb, of ieee_single, unfolded d option.case]
  obtain s1 gx1 s2 gx2 g2 where
    c: "Linear_backward_cpu ieee_single ex_linear [ex_x] [ex_gy] = (s1, Inr gx1)"
       "Linear_backward_cpu ieee_single s1 [ex_x] [ex_gy] = (s2, Inr gx2)" "W s2 = W ex_linear"
    and a: "\<forall>p<2. \<forall>i<3. mat_at (gW s2) p i =
          fl_add ieee_single
            (fl_add ieee_single (mat_at (gW ex_linear) p i)
               (fl_dot ieee_single (map (\<lambda>m. mat_at ex_gy m p) [0..<4])
                  (map (\<lambda>m. data ex_x ! (m * 3 + i)) [0..<4])))
            (fl_dot ieee_single (map (\<lambda>m. mat_at ex_gy m p) [0..<4])
               (map (\<lambda>m. data ex_x ! (m * 3 + i)) [0..<4]))"
    and g: "gb s2 = Some g2"
      "\<forall>p<2. g2 ! p =
          fl_add ieee_single
            (fl_add ieee_single ([7, 7] ! p) (fl_sum ieee_single (map (\<lambda>m. mat_at ex_gy m p) [0..<4])))
            (fl_sum ieee_single (map (\<lambda>m. mat_at ex_gy m p) [0..<4]))"
    and x: "shape gx1 = shape ex_x" "shape gx2 = shape ex_x"
      "\<forall>m<4. \<forall>i<3. data gx1 ! (m * 3 + i) =
          fl_dot ieee_single (map (\<lambda>p. mat_at ex_gy m p) [0..<2])
            (map (\<lambda>p. mat_at (W ex_linear) p i) [0..<2])"
      "\<forall>m<4. \<forall>i<3. data gx2 ! (m * 3 + i) =
          fl_dot ieee_single (map (\<lambda>p. mat_at ex_gy m p) [0..<2])
            (map (\<lambda>p. mat_at (W ex_linear) p i) [0..<2])"
    by blast
  note ev = upt_4 upt_2 ex_x_def ex_gy_def ex_linear_def mat_at_def ieee_single_simps
    float32_simps
  have "mat_at (gW s2) 0 0 = 13"
    using a [rule_format, of 0 0] by (simp add: ev)
  moreover have "mat_at (gW s2) 1 2 = 15"
    using a [rule_format, of 1 2] by (simp add: ev)
  moreover have "g2 ! 0 = 15"
    using g(2) [rule_format, of 0] by (simp add: ev)
  moreover have "g2 ! 1 = 17"
    using g(2) [rule_format, of 1] by (simp add: ev)
  moreover have "data gx1 ! 11 = 19"
    using x(3) [rule_format, of 3 2] by (simp add: ev)
  moreover have "data gx1 ! 1 = 1"
    using x(3) [rule_format, of 0 1] by (simp add: ev)
  moreover have "data gx2 ! 11 = 19"
    using x(4) [rule_format, of 3 2] by (simp add: ev)
  moreover have "shape ex_x = [4, 3]" "nrows (gW ex_linear) = 2" "ncols (gW ex_linear) = 3"
    "ncols ex_gy = 2"
    by (simp_all add: ex_x_def ex_linear_def ex_gy_def)
  ultimately show ?thesis using c g(1) x(1,2) d hy(1) by auto
qed

text \<open>
  The claim as stated fails in single precision. With every accumulator entry at \<open>2\<^sup>2\<^sup>4\<close>,
  the input \<open>[[1]]\<close> and the output gradient \<open>[[1]]\<close>, each call contributes 1 to \<open>gW\<close> and
  to \<open>gb\<close>, and each rounded addition \<open>2\<^sup>2\<^sup>4 + 1\<close> returns \<open>2\<^sup>2\<^sup>4\<close>: after two calls the
  accumulators still hold \<open>2\<^sup>2\<^sup>4\<close>, not their value before plus the sum \<open>1 + 1\<close> of the two
  contributions, which is \<open>2\<^sup>2\<^sup>4 + 2\<close> and representable.
\<close>

theorem C1_two_calls_lose_contributions:
  "dot ieee_single (T one_gy) \<lparr>nrows = 1, ncols = 1, elems = data one_x\<rparr> =
     Inr \<lparr>nrows = 1, ncols = 1, elems = [1]\<rparr> \<and>
   sum0 ieee_single one_gy = [1] \<and>
   gW (fst (Linear_backward_cpu ieee_single
             (fst (Linear_backward_cpu ieee_single big_linear [one_x] [one_gy]))
             [one_x] [one_gy])) =
     \<lparr>nrows = 1, ncols = 1, elems = [16777216]\<rparr> \<and>
   gb (fst (Linear_backward_cpu ieee_single
             (fst (Linear_backward_cpu ieee_single big_linear [one_x] [one_gy]))
             [one_x] [one_gy])) =
     Some [16777216] \<and>
   fl_add ieee_single 16777216 (fl_add ieee_single 1 1) = 16777218"
proof -
  note ev = big_linear_def one_x_def one_gy_def dot_def T_def mk_matrix_def mat_row_def
    mat_col_def mat_at_def sum0_def iadd_mat_def iadd_vec_def reshape_nd_def reshape2_def
    as_mat_def size_nd_def Let_def ieee_single_simps float32_simps
  have one: "Linear_backward_cpu ieee_single big_linear [one_x] [one_gy] =
      (big_linear, Inr \<lparr>shape = [1, 1], data = [1]\<rparr>)"
    by (simp add: Linear_backward_cpu_def ev)
  have d: "dot ieee_single (T one_gy) \<lparr>nrows = 1, ncols = 1, elems = data one_x\<rparr> =
     Inr \<lparr>nrows = 1, ncols = 1, elems = [1]\<rparr>"
    by (simp add: ev)
  have s: "sum0 ieee_single one_gy = [1]"
    by (simp add: ev)
  have f: "fl_add ieee_single 16777216 (fl_add ieee_single 1 1) = 16777218"
    by (simp add: ieee_single_simps float32_simps)
  from one d s f show ?thesis by (simp add: big_linear_def)
qed

subsection \<open>Linear: inputs with more than two dimensions\<close>

lemma as_mat_reshape:
  "shape x = n # ds \<Longrightarrow> as_mat \<lparr>shape = [n, prod_list ds], data = data x\<rparr> = as_mat x"
  by (simp add: as_mat_def reshape2_def size_nd_def)

text \<open>
  C7 (as amended). For an input \<open>x\<close> of shape \<open>(batch, d1, d2)\<close>, reshaping to
  \<open>(batch, d1 * d2)\<close> succeeds, and \<open>forward_cpu\<close> gives the same result on \<open>x\<close> and on the
  reshaped array. When the batch has at least one element and the pass is one that
  forward accepts, forward returns the output \<open>X_flat \<cdot> W\<^sup>T (+ b)\<close> of \<open>batch\<close> rows, and
  \<open>backward_cpu\<close> on \<open>x\<close> returns the input gradient \<open>gy \<cdot> W\<close> in the shape
  \<open>(batch, d1, d2)\<close>: entry \<open>(m, i)\<close> of the flattened gradient is the inner product of row
  \<open>m\<close> of \<open>gy\<close> with column \<open>i\<close> of \<open>W\<close>. It holds the same elements as the gradient for the
  reshaped input, whose shape is \<open>(batch, d1 * d2)\<close>, and both calls leave the instance in
  the same state, with \<open>gy\<^sup>T \<cdot> X_flat\<close> added to \<open>gW\<close> and the column sums of \<open>gy\<close> to \<open>gb\<close>.
\<close>

theorem C7_reshape_transparency:
  assumes sh: "shape x = [n, d1, d2]"
  shows "\<exists>x'. reshape x [n, d1 * d2] = Inr x' \<and>
     Linear_forward_cpu ops self [x'] = Linear_forward_cpu ops self [x] \<and>
     (0 < n \<and> d1 * d2 = ncols (W self) \<and>
      (case b self of None \<Rightarrow> True | Some bv \<Rightarrow> length bv = nrows (W self)) \<and>
      nrows (gW self) = nrows (W self) \<and> ncols (gW self) = ncols (W self) \<and>
      nrows gy = n \<and> ncols gy = nrows (W self) \<and>
      (case gb self of None \<Rightarrow> True | Some g \<Rightarrow> length g = nrows (W self)) \<longrightarrow>
      (\<exists>y s1 gx gx'.
         Linear_forward_cpu ops self [x] = Inr y \<and> nrows y = n \<and> ncols y = nrows (W self) \<and>
         (\<forall>i<n. \<forall>j<nrows (W self).
            mat_at y i j =
              (case b self of
                 None \<Rightarrow>
                   fl_dot ops (map (\<lambda>l. data x ! (i * (d1 * d2) + l)) [0..<d1 * d2])
                     (map (\<lambda>l. mat_at (W self) j l) [0..<d1 * d2])
               | Some bv \<Rightarrow>
                   fl_add ops
                     (fl_dot ops (map (\<lambda>l. data x ! (i * (d1 * d2) + l)) [0..<d1 * d2])
                        (map (\<lambda>l. mat_at (W self) j l) [0..<d1 * d2]))
                     (bv ! j))) \<and>
         Linear_backward_cpu ops self [x] [gy] = (s1, Inr gx) \<and> shape gx = [n, d1, d2] \<and>
         Linear_backward_cpu ops self [x'] [gy] = (s1, Inr gx') \<and> shape gx' = [n, d1 * d2] \<and>
         data gx = data gx' \<and> length (data gx) = n * d1 * d2 \<and>
         (\<forall>m<n. \<forall>i<d1 * d2.
            data gx ! (m * (d1 * d2) + i) =
              fl_dot ops (map (\<lambda>p. mat_at gy m p) [0..<nrows (W self)])
                (map (\<lambda>p. mat_at (W self) p i) [0..<nrows (W self)])) \<and>
         W s1 = W self \<and> b s1 = b self \<and>
         (\<forall>p<nrows (W self). \<forall>i<d1 * d2.
            mat_at (gW s1) p i =
              fl_add ops (mat_at (gW self) p i)
                (fl_dot ops (map (\<lambda>m. mat_at gy m p) [0..<n])
                   (map (\<lambda>m. data x ! (m * (d1 * d2) + i)) [0..<n]))) \<and>
         (case gb self of
            None \<Rightarrow> gb s1 = None
          | Some g \<Rightarrow> (\<exists>g1. gb s1 = Some g1 \<and> length g1 = nrows (W self) \<and>
                        (\<forall>p<nrows (W self).
                           g1 ! p = fl_add ops (g ! p)
                                      (fl_sum ops (map (\<lambda>m. mat_at gy m p) [0..<n])))))))"
proof -
  let ?x' = "\<lparr>shape = [n, d1 * d2], data = data x\<rparr>"
  have r: "reshape x [n, d1 * d2] = Inr ?x'"
    using sh by (simp add: reshape_def size_nd_def)
  have am: "as_mat ?x' = as_mat x"
    using as_mat_reshape [of x n "[d1, d2]"] sh by simp
  have fw: "Linear_forward_cpu ops self [?x'] = Linear_forward_cpu ops self [x]"
    by (simp add: Linear_forward_cpu_def am)
  have bw: "\<exists>y s1 gx gx'.
         Linear_forward_cpu ops self [x] = Inr y \<and> nrows y = n \<and> ncols y = nrows (W self) \<and>
         (\<forall>i<n. \<forall>j<nrows (W self).
            mat_at y i j =
              (case b self of
                 None \<Rightarrow>
                   fl_dot ops (map (\<lambda>l. data x ! (i * (d1 * d2) + l)) [0..<d1 * d2])
                     (map (\<lambda>l. mat_at (W self) j l) [0..<d1 * d2])
               | Some bv \<Rightarrow>
                   fl_add ops
                     (fl_dot ops (map (\<lambda>l. data x ! (i * (d1 * d2) + l)) [0..<d1 * d2])
                        (map (\<lambda>l. mat_at (W self) j l) [0..<d1 * d2]))
                     (bv ! j))) \<and>
         Linear_backward_cpu ops self [x] [gy] = (s1, Inr gx) \<and> shape gx = [n, d1, d2] \<and>
         Linear_backward_cpu ops self [?x'] [gy] = (s1, Inr gx') \<and> shape gx' = [n, d1 * d2] \<and>
         data gx = data gx' \<and> length (data gx) = n * d1 * d2 \<and>
         (\<forall>m<n. \<forall>i<d1 * d2.
            data gx ! (m * (d1 * d2) + i) =
              fl_dot ops (map (\<lambda>p. mat_at gy m p) [0..<nrows (W self)])
                (map (\<lambda>p. mat_at (W self) p i) [0..<nrows (W self)])) \<and>
         W s1 = W self \<and> b s1 = b self \<and>
         (\<forall>p<nrows (W self). \<forall>i<d1 * d2.
            mat_at (gW s1) p i =
              fl_add ops (mat_at (gW self) p i)
                (fl_dot ops (map (\<lambda>m. mat_at gy m p) [0..<n])
                   (map (\<lambda>m. data x ! (m * (d1 * d2) + i)) [0..<n]))) \<and>
         (case gb self of
            None \<Rightarrow> gb s1 = None
          | Some g \<Rightarrow> (\<exists>g1. gb s1 = Some g1 \<and> length g1 = nrows (W self) \<and>
                        (\<forall>p<nrows (W self).
                           g1 ! p = fl_add ops (g ! p)
                                      (fl_sum ops (map (\<lambda>m. mat_at gy m p) [0..<n])))))"
    if h: "0 < n \<and> d1 * d2 = ncols (W self) \<and>
      (case b self of None \<Rightarrow> True | Some bv \<Rightarrow> length bv = nrows (W self)) \<and>
      nrows (gW self) = nrows (W self) \<and> ncols (gW self) = ncols (W self) \<and>
      nrows gy = n \<and> ncols gy = nrows (W self) \<and>
      (case gb self of None \<Rightarrow> True | Some g \<Rightarrow> length g = nrows (W self))"
  proof -
    from h have n: "0 < n" and k: "prod_list [d1, d2] = ncols (W self)"
      and k': "prod_list [d1 * d2] = ncols (W self)"
      and kk: "ncols (W self) = d1 * d2"
      and bl: "case b self of None \<Rightarrow> True | Some bv \<Rightarrow> length bv = nrows (W self)"
      and gr: "nrows (gW self) = nrows (W self)" and gc: "ncols (gW self) = ncols (W self)"
      and yr: "nrows gy = n" and yc: "ncols gy = nrows (W self)"
      and gl: "case gb self of None \<Rightarrow> True | Some g \<Rightarrow> length g = nrows (W self)"
      by simp_all
    have sh1: "shape x = n # [d1, d2]" using sh by simp
    have sh2: "shape ?x' = n # [d1 * d2]" by simp
    from Linear_forward_cpu_value [OF sh1 n k bl, of ops "[]", unfolded kk]
    obtain y where y: "Linear_forward_cpu ops self [x] = Inr y" "nrows y = n"
        "ncols y = nrows (W self)"
        "\<forall>i<n. \<forall>j<nrows (W self).
            mat_at y i j =
              (case b self of
                 None \<Rightarrow>
                   fl_dot ops (map (\<lambda>l. data x ! (i * (d1 * d2) + l)) [0..<d1 * d2])
                     (map (\<lambda>l. mat_at (W self) j l) [0..<d1 * d2])
               | Some bv \<Rightarrow>
                   fl_add ops
                     (fl_dot ops (map (\<lambda>l. data x ! (i * (d1 * d2) + l)) [0..<d1 * d2])
                        (map (\<lambda>l. mat_at (W self) j l) [0..<d1 * d2]))
                     (bv ! j))"
      by blast
    from Linear_backward_cpu_entries [OF sh1 n k gr gc yr yc gl, of ops "[]" "[]", unfolded kk]
    obtain s1 gx where e: "Linear_backward_cpu ops self [x] [gy] = (s1, Inr gx)"
        "W s1 = W self" "b s1 = b self"
        "\<forall>p<nrows (W self). \<forall>i<d1 * d2.
            mat_at (gW s1) p i =
              fl_add ops (mat_at (gW self) p i)
                (fl_dot ops (map (\<lambda>m. mat_at gy m p) [0..<n])
                   (map (\<lambda>m. data x ! (m * (d1 * d2) + i)) [0..<n]))"
        "case gb self of
            None \<Rightarrow> gb s1 = None
          | Some g \<Rightarrow> (\<exists>g1. gb s1 = Some g1 \<and> length g1 = nrows (W self) \<and>
                        (\<forall>p<nrows (W self).
                           g1 ! p = fl_add ops (g ! p)
                                      (fl_sum ops (map (\<lambda>m. mat_at gy m p) [0..<n]))))"
        "shape gx = shape x" "length (data gx) = n * (d1 * d2)"
        "\<forall>m<n. \<forall>i<d1 * d2.
            data gx ! (m * (d1 * d2) + i) =
              fl_dot ops (map (\<lambda>p. mat_at gy m p) [0..<nrows (W self)])
                (map (\<lambda>p. mat_at (W self) p i) [0..<nrows (W self)])"
      by blast
    note s1 = Linear_backward_cpu_step [OF sh1 n k gr gc yr yc gl, of ops "[]" "[]"]
    note s2 = Linear_backward_cpu_step [OF sh2 n k' gr gc yr yc gl, of ops "[]" "[]"]
    let ?gx' = "\<lparr>shape = [n, d1 * d2], data = data gx\<rparr>"
    have e': "Linear_backward_cpu ops self [?x'] [gy] = (s1, Inr ?gx')"
      using e(1) by (simp add: s1 s2) auto
    have sg: "shape gx = [n, d1, d2]" using e(6) sh by simp
    have lg: "length (data gx) = n * d1 * d2" using e(7) by (simp add: mult.assoc)
    show ?thesis
      apply (rule exI [of _ y], rule exI [of _ s1], rule exI [of _ gx], rule exI [of _ ?gx'])
      using y e e' sg lg apply simp
      done
  qed
  from r fw bw show ?thesis by blast
qed

theorem C7_reshape_transparency_witness:
  "shape ex_x3 = [2, 2, 2] \<and>
   reshape ex_x3 [2, 4] = Inr \<lparr>shape = [2, 4], data = [1, 2, 3, 4, 5, 6, 7, 8]\<rparr> \<and>
   Linear_forward_cpu ieee_single ex_linear4 [\<lparr>shape = [2, 4], data = [1, 2, 3, 4, 5, 6, 7, 8]\<rparr>] =
     Linear_forward_cpu ieee_single ex_linear4 [ex_x3] \<and>
   (\<exists>y s1 gx gx'.
      Linear_forward_cpu ieee_single ex_linear4 [ex_x3] = Inr y \<and> nrows y = 2 \<and> ncols y = 2 \<and>
      mat_at y 0 0 = 19 / 2 \<and> mat_at y 1 1 = 71 / 2 \<and>
      Linear_backward_cpu ieee_single ex_linear4 [ex_x3] [ex_gy2] = (s1, Inr gx) \<and>
      shape gx = [2, 2, 2] \<and>
      Linear_backward_cpu ieee_single ex_linear4
          [\<lparr>shape = [2, 4], data = [1, 2, 3, 4, 5, 6, 7, 8]\<rparr>] [ex_gy2] = (s1, Inr gx') \<and>
      shape gx' = [2, 4] \<and> data gx = data gx' \<and> length (data gx) = 8 \<and>
      data gx ! 1 = 2 \<and> data gx ! 5 = 5 \<and> data gx ! 6 = 3 \<and>
      mat_at (gW s1) 0 1 = 21 \<and> mat_at (gW s1) 1 3 = 15 \<and>
      (\<exists>g1. gb s1 = Some g1 \<and> g1 ! 0 = 10 \<and> g1 ! 1 = 8))"
proof -
  have sh: "shape ex_x3 = [2, 2, 2]" by (simp add: ex_x3_def)
  have r: "reshape ex_x3 [2, 4] = Inr \<lparr>shape = [2, 4], data = [1, 2, 3, 4, 5, 6, 7, 8]\<rparr>"
    by (simp add: reshape_def size_nd_def ex_x3_def)
  have h: "(0::nat) < 2 \<and> 2 * 2 = ncols (W ex_linear4) \<and>
      (case b ex_linear4 of None \<Rightarrow> True | Some bv \<Rightarrow> length bv = nrows (W ex_linear4)) \<and>
      nrows (gW ex_linear4) = nrows (W ex_linear4) \<and>
      ncols (gW ex_linear4) = ncols (W ex_linear4) \<and>
      nrows ex_gy2 = 2 \<and> ncols ex_gy2 = nrows (W ex_linear4) \<and>
      (case gb ex_linear4 of None \<Rightarrow> True | Some g \<Rightarrow> length g = nrows (W ex_linear4))"
    by (simp add: ex_linear4_def ex_gy2_def)
  have d: "nrows (W ex_linear4) = 2" "b ex_linear4 = Some [1 / 2, 1 / 2]"
    "gb ex_linear4 = Some [7, 7]" "(2::nat) * 2 = 4"
    by (simp_all add: ex_linear4_def)
  from C7_reshape_transparency [OF sh, of ieee_single ex_linear4 ex_gy2] r h
  obtain y s1 gx gx' g1 where
    f: "Linear_forward_cpu ieee_single ex_linear4
          [\<lparr>shape = [2, 4], data = [1, 2, 3, 4, 5, 6, 7, 8]\<rparr>] =
        Linear_forward_cpu ieee_single ex_linear4 [ex_x3]"
      "Linear_forward_cpu ieee_single ex_linear4 [ex_x3] = Inr y" "nrows y = 2"
      "ncols y = nrows (W ex_linear4)"
    and yv: "\<forall>i<2. \<forall>j<nrows (W ex_linear4).
        mat_at y i j =
          (case b ex_linear4 of
             None \<Rightarrow>
               fl_dot ieee_single (map (\<lambda>l. data ex_x3 ! (i * (2 * 2) + l)) [0..<2 * 2])
                 (map (\<lambda>l. mat_at (W ex_linear4) j l) [0..<2 * 2])
           | Some bv \<Rightarrow>
               fl_add ieee_single
                 (fl_dot ieee_single (map (\<lambda>l. data ex_x3 ! (i * (2 * 2) + l)) [0..<2 * 2])
                    (map (\<lambda>l. mat_at (W ex_linear4) j l) [0..<2 * 2]))
                 (bv ! j))"
    and bk: "Linear_backward_cpu ieee_single ex_linear4 [ex_x3] [ex_gy2] = (s1, Inr gx)"
      "shape gx = [2, 2, 2]"
      "Linear_backward_cpu ieee_single ex_linear4
          [\<lparr>shape = [2, 4], data = [1, 2, 3, 4, 5, 6, 7, 8]\<rparr>] [ex_gy2] = (s1, Inr gx')"
      "shape gx' = [2, 2 * 2]" "data gx = data gx'" "length (data gx) = 2 * 2 * 2"
    and gv: "\<forall>m<2. \<forall>i<2 * 2.
        data gx ! (m * (2 * 2) + i) =
          fl_dot ieee_single (map (\<lambda>p. mat_at ex_gy2 m p) [0..<nrows (W ex_linear4)])
            (map (\<lambda>p. mat_at (W ex_linear4) p i) [0..<nrows (W ex_linear4)])"
    and wv: "\<forall>p<nrows (W ex_linear4). \<forall>i<2 * 2.
        mat_at (gW s1) p i =
          fl_add ieee_single (mat_at (gW ex_linear4) p i)
            (fl_dot ieee_single (map (\<lambda>m. mat_at ex_gy2 m p) [0..<2])
               (map (\<lambda>m. data ex_x3 ! (m * (2 * 2) + i)) [0..<2]))"
    and bv: "gb s1 = Some g1"
      "\<forall>p<nrows (W ex_linear4).
         g1 ! p = fl_add ieee_single ([7, 7] ! p)
                    (fl_sum ieee_single (map (\<lambda>m. mat_at ex_gy2 m p) [0..<2]))"
    by (auto simp: d(3))
  note ev = d upt_4 upt_2 ex_x3_def ex_gy2_def ex_linear4_def mat_at_def ieee_single_simps
    float32_simps
  have "mat_at y 0 0 = 19 / 2"
    using yv [rule_format, of 0 0] by (simp add: ev)
  moreover have "mat_at y 1 1 = 71 / 2"
    using yv [rule_format, of 1 1] by (simp add: ev)
  moreover have "data gx ! 1 = 2"
    using gv [rule_format, of 0 1] by (simp add: ev)
  moreover have "data gx ! 5 = 5"
    using gv [rule_format, of 1 1] by (simp add: ev)
  moreover have "data gx ! 6 = 3"
    using gv [rule_format, of 1 2] by (simp add: ev)
  moreover have "mat_at (gW s1) 0 1 = 21"
    using wv [rule_format, of 0 1] by (simp add: ev)
  moreover have "mat_at (gW s1) 1 3 = 15"
    using wv [rule_format, of 1 3] by (simp add: ev)
  moreover have "g1 ! 0 = 10"
    using bv(2) [rule_format, of 0] by (simp add: ev)
  moreover have "g1 ! 1 = 8"
    using bv(2) [rule_format, of 1] by (simp add: ev)
  ultimately show ?thesis
    using sh r f bk bv(1) by (simp add: d)
qed

text \<open>
  The claim as stated fails on an empty batch: an input of shape \<open>(0, 2, 2)\<close> has the
  claimed form, and on it forward returns no output and backward no gradient, both raise
  ZeroDivisionError.
\<close>

theorem C7_empty_batch_raises:
  "Linear_forward_cpu ieee_single ex_linear4 [\<lparr>shape = [0, 2, 2], data = []\<rparr>] =
     Inl ZeroDivisionError \<and>
   Linear_backward_cpu ieee_single ex_linear4 [\<lparr>shape = [0, 2, 2], data = []\<rparr>]
       [\<lparr>nrows = 0, ncols = 2, elems = []\<rparr>] =
     (ex_linear4, Inl ZeroDivisionError)"
  by (simp add: Linear_forward_cpu_def Linear_backward_cpu_def as_mat_def)

subsection \<open>Linear: any number of backward calls\<close>

lemma ok_call_cong: "W s = W t \<Longrightarrow> ok_call s c = ok_call t c"
  by (simp add: ok_call_def split: list.splits)

lemma backward_all_acc:
  assumes "\<forall>c\<in>set calls. ok_call self c"
    and "nrows (gW self) = nrows (W self)" and "ncols (gW self) = ncols (W self)"
    and "case gb self of None \<Rightarrow> True | Some g \<Rightarrow> length g = nrows (W self)"
  shows "W (backward_all ops self calls) = W self \<and>
     (\<forall>p<nrows (W self). \<forall>i<ncols (W self).
        mat_at (gW (backward_all ops self calls)) p i =
          foldl (fl_add ops) (mat_at (gW self) p i)
            (map (\<lambda>c. fl_dot ops (map (\<lambda>m. mat_at (snd c) m p) [0..<nrows (snd c)])
                         (map (\<lambda>m. data (fst c) ! (m * ncols (W self) + i))
                            [0..<nrows (snd c)]))
               calls)) \<and>
     (case gb self of
        None \<Rightarrow> gb (backward_all ops self calls) = None
      | Some g \<Rightarrow> (\<exists>g1. gb (backward_all ops self calls) = Some g1 \<and>
                    length g1 = nrows (W self) \<and>
                    (\<forall>p<nrows (W self).
                       g1 ! p =
                         foldl (fl_add ops) (g ! p)
                           (map (\<lambda>c. fl_sum ops (map (\<lambda>m. mat_at (snd c) m p)
                                                    [0..<nrows (snd c)]))
                              calls))))"
  using assms
proof (induction calls arbitrary: self)
  case Nil
  then show ?case by (cases "gb self") simp_all
next
  case (Cons c cs)
  let ?k = "ncols (W self)" and ?o = "nrows (W self)"
  let ?x = "fst c" and ?gy = "snd c"
  from Cons.prems(1) have ok: "ok_call self c" by simp
  then obtain n ds where sh: "shape ?x = n # ds" and n: "0 < n" and k: "prod_list ds = ?k"
    and yr: "nrows ?gy = n" and yc: "ncols ?gy = ?o"
    by (auto simp: ok_call_def split: list.splits)
  from Linear_backward_cpu_entries [OF sh n k Cons.prems(2,3) yr yc Cons.prems(4),
      of ops "[]" "[]"]
  obtain s1 gx where c1: "Linear_backward_cpu ops self [?x] [?gy] = (s1, Inr gx)"
    and k1: "W s1 = W self" "nrows (gW s1) = ?o" "ncols (gW s1) = ?k"
    and a1: "\<forall>p<?o. \<forall>i<?k. mat_at (gW s1) p i =
          fl_add ops (mat_at (gW self) p i)
            (fl_dot ops (map (\<lambda>m. mat_at ?gy m p) [0..<n])
               (map (\<lambda>m. data ?x ! (m * ?k + i)) [0..<n]))"
    and b1: "case gb self of
        None \<Rightarrow> gb s1 = None
      | Some g \<Rightarrow> (\<exists>g1. gb s1 = Some g1 \<and> length g1 = ?o \<and>
                    (\<forall>p<?o. g1 ! p = fl_add ops (g ! p)
                                        (fl_sum ops (map (\<lambda>m. mat_at ?gy m p) [0..<n]))))"
    by blast
  have oks: "\<forall>c'\<in>set cs. ok_call s1 c'"
    using Cons.prems(1) ok_call_cong [OF k1(1)] by simp
  have gl1: "case gb s1 of None \<Rightarrow> True | Some g \<Rightarrow> length g = nrows (W s1)"
    using b1 k1(1) by (cases "gb self") auto
  note ih = Cons.IH [OF oks, unfolded k1(1), OF k1(2) k1(3) gl1 [unfolded k1(1)]]
  from ih have w: "W (backward_all ops s1 cs) = W self" by simp
  from ih have a2: "\<forall>p<?o. \<forall>i<?k. mat_at (gW (backward_all ops s1 cs)) p i =
          foldl (fl_add ops) (mat_at (gW s1) p i)
            (map (\<lambda>c. fl_dot ops (map (\<lambda>m. mat_at (snd c) m p) [0..<nrows (snd c)])
                         (map (\<lambda>m. data (fst c) ! (m * ?k + i)) [0..<nrows (snd c)]))
               cs)"
    by simp
  from ih have b2: "case gb s1 of
        None \<Rightarrow> gb (backward_all ops s1 cs) = None
      | Some g \<Rightarrow> (\<exists>g1. gb (backward_all ops s1 cs) = Some g1 \<and> length g1 = ?o \<and>
                    (\<forall>p<?o. g1 ! p =
                       foldl (fl_add ops) (g ! p)
                         (map (\<lambda>c. fl_sum ops (map (\<lambda>m. mat_at (snd c) m p)
                                                  [0..<nrows (snd c)]))
                            cs)))"
    by simp
  have acc: "\<forall>p<?o. \<forall>i<?k. mat_at (gW (backward_all ops self (c # cs))) p i =
          foldl (fl_add ops) (mat_at (gW self) p i)
            (map (\<lambda>c. fl_dot ops (map (\<lambda>m. mat_at (snd c) m p) [0..<nrows (snd c)])
                         (map (\<lambda>m. data (fst c) ! (m * ?k + i)) [0..<nrows (snd c)]))
               (c # cs))"
    using a1 a2 by (simp add: c1 yr)
  have accb: "case gb self of
        None \<Rightarrow> gb (backward_all ops self (c # cs)) = None
      | Some g \<Rightarrow> (\<exists>g1. gb (backward_all ops self (c # cs)) = Some g1 \<and> length g1 = ?o \<and>
                    (\<forall>p<?o. g1 ! p =
                       foldl (fl_add ops) (g ! p)
                         (map (\<lambda>c. fl_sum ops (map (\<lambda>m. mat_at (snd c) m p)
                                                  [0..<nrows (snd c)]))
                            (c # cs))))"
  proof (cases "gb self")
    case None
    with b1 b2 show ?thesis by (simp add: c1)
  next
    case (Some g)
    with b1 obtain h1 where h1: "gb s1 = Some h1" "length h1 = ?o"
      "\<forall>p<?o. h1 ! p = fl_add ops (g ! p) (fl_sum ops (map (\<lambda>m. mat_at ?gy m p) [0..<n]))"
      by auto
    with b2 obtain h2 where h2: "gb (backward_all ops s1 cs) = Some h2" "length h2 = ?o"
      "\<forall>p<?o. h2 ! p =
         foldl (fl_add ops) (h1 ! p)
           (map (\<lambda>c. fl_sum ops (map (\<lambda>m. mat_at (snd c) m p) [0..<nrows (snd c)])) cs)"
      by auto
    from h1 h2 Some show ?thesis by (simp add: c1 yr)
  qed
  from w have "W (backward_all ops self (c # cs)) = W self" by (simp add: c1)
  with acc accb show ?case by blast
qed

text \<open>
  C10 (as amended). \<^verbatim>\<open>__init__\<close> fills \<open>gW\<close>, and \<open>gb\<close> when the bias is present, with
  whatever the allocated memory holds; nothing zeroes them. After any sequence of
  \<open>backward_cpu\<close> calls for passes that forward accepted, each entry of an accumulator is
  that initial memory content to which the contributions of the calls have been added one
  at a time, in the order of the calls, each by one rounded floating-point addition: the
  entry of \<open>gW\<close> receives the entries of \<open>gy\<^sup>T \<cdot> X_flat\<close>, the entry of \<open>gb\<close> the column sums
  of \<open>gy\<close>. So the value depends on the initial content; it is not in general that content
  plus the sum of the contributions.
\<close>

theorem C10_accumulators_uninitialised:
  assumes init: "Linear_init ops normal memW memb in_size out_size wscale bias nobias = Inr self"
    and calls: "\<forall>c\<in>set calls. ok_call self c"
  shows "gW self = \<lparr>nrows = out_size, ncols = in_size,
                    elems = map memW [0..<out_size * in_size]\<rparr> \<and>
     gb self = (if nobias then None else Some (map memb [0..<out_size])) \<and>
     (\<forall>p<out_size. \<forall>i<in_size.
        mat_at (gW (backward_all ops self calls)) p i =
          foldl (fl_add ops) (memW (p * in_size + i))
            (map (\<lambda>c. fl_dot ops (map (\<lambda>m. mat_at (snd c) m p) [0..<nrows (snd c)])
                         (map (\<lambda>m. data (fst c) ! (m * in_size + i)) [0..<nrows (snd c)]))
               calls)) \<and>
     (if nobias then gb (backward_all ops self calls) = None
      else (\<exists>g. gb (backward_all ops self calls) = Some g \<and> length g = out_size \<and>
              (\<forall>p<out_size.
                 g ! p =
                   foldl (fl_add ops) (memb p)
                     (map (\<lambda>c. fl_sum ops (map (\<lambda>m. mat_at (snd c) m p) [0..<nrows (snd c)]))
                        calls))))"
proof -
  note r = Linear_init_result [OF init]
  from r have d: "nrows (W self) = out_size" "ncols (W self) = in_size" by simp_all
  from r have g0: "gW self = \<lparr>nrows = out_size, ncols = in_size,
                    elems = map memW [0..<out_size * in_size]\<rparr>" by simp
  from r have b0: "gb self = (if nobias then None else Some (map memb [0..<out_size]))" by simp
  have gl: "case gb self of None \<Rightarrow> True | Some g \<Rightarrow> length g = nrows (W self)"
    by (simp add: b0 d)
  have gd: "nrows (gW self) = nrows (W self)" "ncols (gW self) = ncols (W self)"
    by (simp_all add: g0 d)
  note acc = backward_all_acc [OF calls gd gl, of ops, unfolded d]
  have m0: "mat_at (gW self) p i = memW (p * in_size + i)" if "p < out_size" "i < in_size" for p i
    using that by (simp add: g0 mat_at_def index_lt)
  have a: "\<forall>p<out_size. \<forall>i<in_size.
        mat_at (gW (backward_all ops self calls)) p i =
          foldl (fl_add ops) (memW (p * in_size + i))
            (map (\<lambda>c. fl_dot ops (map (\<lambda>m. mat_at (snd c) m p) [0..<nrows (snd c)])
                         (map (\<lambda>m. data (fst c) ! (m * in_size + i)) [0..<nrows (snd c)]))
               calls)"
    using acc m0 by simp
  have bb: "if nobias then gb (backward_all ops self calls) = None
      else (\<exists>g. gb (backward_all ops self calls) = Some g \<and> length g = out_size \<and>
              (\<forall>p<out_size.
                 g ! p =
                   foldl (fl_add ops) (memb p)
                     (map (\<lambda>c. fl_sum ops (map (\<lambda>m. mat_at (snd c) m p) [0..<nrows (snd c)]))
                        calls)))"
  proof (cases nobias)
    case True
    with acc b0 show ?thesis by simp
  next
    case False
    with acc b0 obtain g where "gb (backward_all ops self calls) = Some g" "length g = out_size"
      "\<forall>p<out_size. g ! p =
         foldl (fl_add ops) (map memb [0..<out_size] ! p)
           (map (\<lambda>c. fl_sum ops (map (\<lambda>m. mat_at (snd c) m p) [0..<nrows (snd c)])) calls)"
      by auto
    with False show ?thesis by simp
  qed
  from g0 b0 a bb show ?thesis by blast
qed

theorem C10_accumulators_uninitialised_witness:
  "Linear_init ieee_single ex_normal ex_mem ex_mem 3 2 1 (1 / 2) False = Inr ex_linear \<and>
   ok_call ex_linear (ex_x, ex_gy) \<and>
   gW ex_linear = \<lparr>nrows = 2, ncols = 3, elems = [7, 7, 7, 7, 7, 7]\<rparr> \<and>
   gb ex_linear = Some [7, 7] \<and>
   mat_at (gW (backward_all ieee_single ex_linear [(ex_x, ex_gy), (ex_x, ex_gy)])) 0 0 = 13 \<and>
   mat_at (gW (backward_all ieee_single ex_linear [(ex_x, ex_gy), (ex_x, ex_gy)])) 1 2 = 15 \<and>
   (\<exists>g. gb (backward_all ieee_single ex_linear [(ex_x, ex_gy), (ex_x, ex_gy)]) = Some g \<and>
      length g = 2 \<and> g ! 0 = 15 \<and> g ! 1 = 17)"
proof -
  have ok: "ok_call ex_linear (ex_x, ex_gy)"
    by (simp add: ok_call_def ex_x_def ex_gy_def ex_linear_def)
  then have oks: "\<forall>c\<in>set [(ex_x, ex_gy), (ex_x, ex_gy)]. ok_call ex_linear c"
    by simp
  note t = C10_accumulators_uninitialised [OF ex_linear_init oks, simplified]
  from t obtain g where
    g: "gb (backward_all ieee_single ex_linear [(ex_x, ex_gy), (ex_x, ex_gy)]) = Some g"
      "length g = 2"
      "\<forall>p<2. g ! p =
         fl_add ieee_single
           (fl_add ieee_single (ex_mem p)
              (fl_sum ieee_single (map (\<lambda>m. mat_at ex_gy m p) [0..<nrows ex_gy])))
           (fl_sum ieee_single (map (\<lambda>m. mat_at ex_gy m p) [0..<nrows ex_gy]))"
    by auto
  from t have a: "\<forall>p<2. \<forall>i<3.
        mat_at (gW (backward_all ieee_single ex_linear [(ex_x, ex_gy), (ex_x, ex_gy)])) p i =
          fl_add ieee_single
            (fl_add ieee_single (ex_mem (p * 3 + i))
               (fl_dot ieee_single (map (\<lambda>m. mat_at ex_gy m p) [0..<nrows ex_gy])
                  (map (\<lambda>m. data ex_x ! (m * 3 + i)) [0..<nrows ex_gy])))
            (fl_dot ieee_single (map (\<lambda>m. mat_at ex_gy m p) [0..<nrows ex_gy])
               (map (\<lambda>m. data ex_x ! (m * 3 + i)) [0..<nrows ex_gy]))"
    by simp
  note ev = upt_4 ex_x_def ex_gy_def ex_mem_def mat_at_def ieee_single_simps float32_simps
  have "mat_at (gW (backward_all ieee_single ex_linear [(ex_x, ex_gy), (ex_x, ex_gy)])) 0 0 = 13"
    using a [rule_format, of 0 0] by (simp add: ev)
  moreover
  have "mat_at (gW (backward_all ieee_single ex_linear [(ex_x, ex_gy), (ex_x, ex_gy)])) 1 2 = 15"
    using a [rule_format, of 1 2] by (simp add: ev)
  moreover have "g ! 0 = 15"
    using g(3) [rule_format, of 0] by (simp add: ev)
  moreover have "g ! 1 = 17"
    using g(3) [rule_format, of 1] by (simp add: ev)
  moreover have "gW ex_linear = \<lparr>nrows = 2, ncols = 3, elems = [7, 7, 7, 7, 7, 7]\<rparr>"
    "gb ex_linear = Some [7, 7]"
    by (simp_all add: ex_linear_def)
  ultimately show ?thesis using ex_linear_init ok g(1,2) by simp
qed

text \<open>
  The claim as stated fails in single precision. With memory that holds \<open>2\<^sup>2\<^sup>4\<close>, two
  calls whose contributions are 1 each leave every accumulator at \<open>2\<^sup>2\<^sup>4\<close>, while the
  initial contents plus the sum of the contributions is \<open>2\<^sup>2\<^sup>4 + 2\<close>, a value that single
  precision represents.
\<close>

theorem C10_contributions_absorbed:
  "Linear_init ieee_single ex_normal big_mem big_mem 1 1 1 0 False =
     Inr \<lparr>W = \<lparr>nrows = 1, ncols = 1, elems = [0]\<rparr>,
          gW = \<lparr>nrows = 1, ncols = 1, elems = [16777216]\<rparr>,
          b = Some [0], gb = Some [16777216]\<rparr> \<and>
   dot ieee_single (T one_gy) \<lparr>nrows = 1, ncols = 1, elems = data one_x\<rparr> =
     Inr \<lparr>nrows = 1, ncols = 1, elems = [1]\<rparr> \<and>
   sum0 ieee_single one_gy = [1] \<and>
   gW (backward_all ieee_single
         \<lparr>W = \<lparr>nrows = 1, ncols = 1, elems = [0]\<rparr>,
          gW = \<lparr>nrows = 1, ncols = 1, elems = [16777216]\<rparr>,
          b = Some [0], gb = Some [16777216]\<rparr>
         [(one_x, one_gy), (one_x, one_gy)]) =
     \<lparr>nrows = 1, ncols = 1, elems = [16777216]\<rparr> \<and>
   gb (backward_all ieee_single
         \<lparr>W = \<lparr>nrows = 1, ncols = 1, elems = [0]\<rparr>,
          gW = \<lparr>nrows = 1, ncols = 1, elems = [16777216]\<rparr>,
          b = Some [0], gb = Some [16777216]\<rparr>
         [(one_x, one_gy), (one_x, one_gy)]) =
     Some [16777216] \<and>
   fl_add ieee_single 16777216 (fl_add ieee_single 1 1) = 16777218"
proof -
  let ?L = "\<lparr>W = \<lparr>nrows = 1, ncols = 1, elems = [0::real]\<rparr>,
          gW = \<lparr>nrows = 1, ncols = 1, elems = [16777216]\<rparr>,
          b = Some [0], gb = Some [16777216]\<rparr>"
  note ev = one_x_def one_gy_def dot_def T_def mk_matrix_def mat_row_def
    mat_col_def mat_at_def sum0_def iadd_mat_def iadd_vec_def reshape_nd_def reshape2_def
    as_mat_def size_nd_def Let_def ieee_single_simps float32_simps
  have init: "Linear_init ieee_single ex_normal big_mem big_mem 1 1 1 0 False = Inr ?L"
    by (simp add: Linear_init_def ex_normal_def big_mem_def empty_like_def Let_def
        ieee_single_simps float32_simps)
  have one: "Linear_backward_cpu ieee_single ?L [one_x] [one_gy] =
      (?L, Inr \<lparr>shape = [1, 1], data = [0]\<rparr>)"
    by (simp add: Linear_backward_cpu_def ev)
  have d: "dot ieee_single (T one_gy) \<lparr>nrows = 1, ncols = 1, elems = data one_x\<rparr> =
     Inr \<lparr>nrows = 1, ncols = 1, elems = [1]\<rparr>"
    by (simp add: ev)
  have s: "sum0 ieee_single one_gy = [1]"
    by (simp add: ev)
  have f: "fl_add ieee_single 16777216 (fl_add ieee_single 1 1) = 16777218"
    by (simp add: ieee_single_simps float32_simps)
  from init one d s f show ?thesis by simp
qed

subsection \<open>Elementwise operations on arrays of one shape\<close>

lemma broadcast_rev_same: "broadcast_rev s s = Some s"
  by (induction s) simp_all

lemma broadcast_shapes_same: "broadcast_shapes s s = Some s"
  by (simp add: broadcast_shapes_def broadcast_rev_same)

lemma concat_chunks: "concat (map (\<lambda>i. take n (drop (i * n) xs)) [0..<d]) = take (d * n) xs"
proof (induction d)
  case 0
  then show ?case by simp
next
  case (Suc d)
  have "take (d * n) xs @ take n (drop (d * n) xs) = take (d * n + n) xs"
    by (simp add: take_add)
  with Suc show ?case by (simp add: add.commute)
qed

lemma expand_same: "length xs = prod_list s \<Longrightarrow> expand s s xs = xs"
proof (induction s arbitrary: xs)
  case Nil
  then show ?case by simp
next
  case (Cons d ds)
  let ?n = "prod_list ds"
  have chunk: "expand ds ds (take ?n (drop (i * ?n) xs)) = take ?n (drop (i * ?n) xs)"
    if "i < d" for i
  proof (rule Cons.IH)
    from that have "Suc i * ?n \<le> d * ?n" by (intro mult_le_mono1) simp
    with Cons.prems show "length (take ?n (drop (i * ?n) xs)) = ?n" by simp
  qed
  have m: "map (\<lambda>i. expand ds ds (take ?n (drop (i * ?n) xs))) [0..<d] =
        map (\<lambda>i. take ?n (drop (i * ?n) xs)) [0..<d]"
    by (rule map_cong [OF refl]) (simp add: chunk)
  have "expand (d # ds) (d # ds) xs =
        concat (map (\<lambda>i. expand ds ds (take ?n (drop (i * ?n) xs))) [0..<d])"
    by simp
  also have "\<dots> = concat (map (\<lambda>i. take ?n (drop (i * ?n) xs)) [0..<d])"
    by (simp only: m)
  also have "\<dots> = take (d * ?n) xs" by (rule concat_chunks)
  also have "\<dots> = xs" using Cons.prems by simp
  finally show ?case .
qed

lemma broadcast_to_same: "wf_nd a \<Longrightarrow> broadcast_to a (shape a) = data a"
  by (simp add: broadcast_to_def wf_nd_def expand_same)

lemma np_binop_same:
  "wf_nd a \<Longrightarrow> wf_nd c \<Longrightarrow> shape c = shape a \<Longrightarrow>
   np_binop f a c = Inr \<lparr>shape = shape a, data = map2 f (data a) (data c)\<rparr>"
  using broadcast_to_same [of a] broadcast_to_same [of c]
  by (simp add: np_binop_def broadcast_shapes_same)

lemma shape_np_map: "shape (np_map f a) = shape a"
  by (simp add: np_map_def)

lemma data_np_map: "data (np_map f a) = map f (data a)"
  by (simp add: np_map_def)

lemma item_0: "item (x # xs) 0 = Inr x"
  by (simp add: item_def)

lemma item_1: "item (x # y # xs) (Suc 0) = Inr y"
  by (simp add: item_def)

lemma bind_err_Inr: "bind_err (Inr v) f = f v"
  by (simp add: bind_err_def)

lemma bind_err_Inl: "bind_err (Inl e) f = Inl e"
  by (simp add: bind_err_def)

subsection \<open>The dispatch functions\<close>



text \<open>
  C4 (as amended). No dispatch function checks the type of its operand: whatever is not a
  graph value is handed to the constructor of the constant-operand operation, which
  stores it. For an operand that supports no arithmetic, \<open>add\<close>, \<open>mul\<close>, \<open>pow\<close>, \<open>rsub\<close>,
  \<open>rdiv\<close> and \<open>rpow\<close> construct the instance first, and TypeError is raised afterwards,
  when the instance is applied and its forward computation uses the operand; \<open>sub\<close> and
  \<open>div\<close> raise TypeError before they construct the instance, from the negation and the
  reciprocal they apply to the operand.
\<close>

theorem C4_no_type_check_at_dispatch:
  "add x (Constant Other) = Inr (AddConstant Other, [x]) \<and>
   call_cpu lib (AddConstant Other, [x]) = Inl TypeError \<and>
   mul x (Constant Other) = Inr (MulConstant Other, [x]) \<and>
   call_cpu lib (MulConstant Other, [x]) = Inl TypeError \<and>
   pow x (Constant Other) = Inr (PowVarConst Other, [x]) \<and>
   call_cpu lib (PowVarConst Other, [x]) = Inl TypeError \<and>
   rsub x (Constant Other) = Inr (SubFromConstant Other, [x]) \<and>
   call_cpu lib (SubFromConstant Other, [x]) = Inl TypeError \<and>
   rdiv x (Constant Other) = Inr (DivFromConstant Other, [x]) \<and>
   call_cpu lib (DivFromConstant Other, [x]) = Inl TypeError \<and>
   rpow x (Constant Other) = Inr (PowConstVar Other None, [x]) \<and>
   call_cpu lib (PowConstVar Other None, [x]) = Inl TypeError \<and>
   sub x (Constant Other) = Inl TypeError \<and>
   div_dispatch lib x (Constant Other) = Inl TypeError"
  by (simp add: add_def mul_def pow_def rsub_def rdiv_def rpow_def sub_def div_dispatch_def
      call_cpu_def bind_err_Inr bind_err_Inl item_0)

text \<open>
  The claim as stated fails: for a string operand \<open>add\<close> constructs the \<open>AddConstant\<close>
  instance that holds the string; no failure precedes the construction.
\<close>

theorem C4_add_constructs_instance:
  "add \<lparr>shape = [1], data = [1]\<rparr> (Constant Other) =
     Inr (AddConstant Other, [\<lparr>shape = [1], data = [1]\<rparr>])"
  by (simp add: add_def)

text \<open>
  C3. \<^verbatim>\<open>div(lhs, rhs)\<close> with the plain number 0 as \<open>rhs\<close> raises ZeroDivisionError at
  dispatch time, from Python's \<^verbatim>\<open>1. / rhs\<close>, whatever \<open>lhs\<close> is. The sibling paths do not
  raise: with an array constant the reciprocal is taken by the array library, and with a
  graph value the division is left to \<open>Div\<close>, whose forward computation returns.
\<close>

theorem C3_div_by_plain_zero_raises:
  "div_dispatch lib x (Constant (PyNumber 0)) = Inl ZeroDivisionError \<and>
   div_dispatch lib x (Constant (NdArray z)) =
     Inr (MulConstant (NdArray (np_map (fdiv lib 1) z)), [x]) \<and>
   div_dispatch lib x (Variable z) = Inr (Div, [x, z]) \<and>
   call_cpu lib (Div, [\<lparr>shape = [2], data = [1, 2]\<rparr>, \<lparr>shape = [2], data = [0, 0]\<rparr>]) =
     Inr (Div, \<lparr>shape = [2], data = [fdiv lib 1 0, fdiv lib 2 0]\<rparr>)"
  by (simp add: div_dispatch_def bind_err_Inr bind_err_Inl call_cpu_def item_0 item_1
      np_binop_same wf_nd_def)





subsection \<open>The accelerator kernels against the host computations\<close>

lemma np_binop_len:
  "length (data u) = prod_list s \<Longrightarrow> length (data v) = prod_list s \<Longrightarrow> shape u = s \<Longrightarrow>
   shape v = s \<Longrightarrow> np_binop f u v = Inr \<lparr>shape = s, data = map2 f (data u) (data v)\<rparr>"
  using np_binop_same [of u v f] by (simp add: wf_nd_def)

lemma elementwise_ok:
  "list_all (\<lambda>a. n \<le> length (data a)) arrays \<Longrightarrow> elementwise n arrays body = Inr (map body [0..<n])"
  by (simp add: elementwise_def)

lemma store_empty_like:
  "length vals = prod_list (shape a) \<Longrightarrow>
   store (cuda_empty_like mem a) vals = \<lparr>shape = shape a, data = vals\<rparr>"
  by (simp add: store_def cuda_empty_like_def size_nd_def)

lemma size_empty_like: "size_nd (cuda_empty_like mem a) = prod_list (shape a)"
  by (simp add: cuda_empty_like_def size_nd_def)

lemma data_empty_like: "length (data (cuda_empty_like mem a)) = prod_list (shape a)"
  by (simp add: cuda_empty_like_def size_nd_def)

lemma gpu_cpu_parity:
  assumes w0: "wf_nd x0" and w1: "wf_nd x1" and wg: "wf_nd gy" and wa: "wf_nd a"
    and s1: "shape x1 = shape x0" and sg: "shape gy = shape x0" and sa: "shape a = shape x0"
    and sq: "\<forall>v. fpow lib v 2 = v * v" and c: "0 < c"
  shows "Mul_backward_gpu m0 m1 [x0, x1] [gy] = backward_cpu lib Mul [x0, x1] [gy]"
    and "Div_backward_gpu lib m0 m1 [x0, x1] [gy] = backward_cpu lib Div [x0, x1] [gy]"
    and "DivFromConstant_backward_gpu lib m0 (PyNumber k) [x0] [gy] =
         backward_cpu lib (DivFromConstant (PyNumber k)) [x0] [gy]"
    and "DivFromConstant_backward_gpu lib m0 (NdArray a) [x0] [gy] =
         backward_cpu lib (DivFromConstant (NdArray a)) [x0] [gy]"
    and "forward_cpu lib (PowVarVar None) [x0, x1] = Inr (f, y) \<Longrightarrow>
         PowVarVar_backward_gpu lib m0 m1 [x0, x1] [gy] = backward_cpu lib f [x0, x1] [gy]"
    and "PowVarConst_backward_gpu lib m0 (PyNumber k) [x0] [gy] =
         backward_cpu lib (PowVarConst (PyNumber k)) [x0] [gy]"
    and "PowVarConst_backward_gpu lib m0 (NdArray a) [x0] [gy] =
         backward_cpu lib (PowVarConst (NdArray a)) [x0] [gy]"
    and "map_sum id snd (forward_cpu lib (PowConstVar (PyNumber k) None) [x0]) =
         PowConstVar_forward_gpu lib m0 (PyNumber k) [x0]"
    and "map_sum id snd (forward_cpu lib (PowConstVar (NdArray a) None) [x0]) =
         PowConstVar_forward_gpu lib m0 (NdArray a) [x0]"
    and "forward_cpu lib (PowConstVar (PyNumber c) None) [x0] = Inr (f, y) \<Longrightarrow>
         PowConstVar_backward_gpu lib m0 (PyNumber c) [x0] [gy] = backward_cpu lib f [x0] [gy]"
    and "forward_cpu lib (PowConstVar (NdArray a) None) [x0] = Inr (f, y) \<Longrightarrow>
         PowConstVar_backward_gpu lib m0 (NdArray a) [x0] [gy] = backward_cpu lib f [x0] [gy]"
proof -
  let ?n = "prod_list (shape x0)"
  have len: "length (data x0) = ?n" "length (data x1) = ?n" "length (data gy) = ?n"
    "length (data a) = ?n"
    using assms by (simp_all add: wf_nd_def)
  note gpu = bind_err_Inr item_0 item_1 Let_def size_empty_like data_empty_like elementwise_ok
    store_empty_like len
  note cpu = bind_err_Inr item_0 item_1 np_binop_len [where s = "shape x0"] len s1 sg sa
    shape_np_map data_np_map
  show "Mul_backward_gpu m0 m1 [x0, x1] [gy] = backward_cpu lib Mul [x0, x1] [gy]"
    apply (simp add: Mul_backward_gpu_def gpu cpu)
    apply (intro conjI nth_equalityI; simp add: len)
    done
  show "Div_backward_gpu lib m0 m1 [x0, x1] [gy] = backward_cpu lib Div [x0, x1] [gy]"
    apply (simp add: Div_backward_gpu_def gpu cpu)
    apply (intro conjI nth_equalityI; simp add: len)
    done
  show "DivFromConstant_backward_gpu lib m0 (PyNumber k) [x0] [gy] =
         backward_cpu lib (DivFromConstant (PyNumber k)) [x0] [gy]"
    apply (simp add: DivFromConstant_backward_gpu_def gpu cpu)
    apply (intro conjI nth_equalityI; simp add: len sq)
    done
  show "DivFromConstant_backward_gpu lib m0 (NdArray a) [x0] [gy] =
         backward_cpu lib (DivFromConstant (NdArray a)) [x0] [gy]"
    apply (simp add: DivFromConstant_backward_gpu_def gpu cpu)
    apply (intro conjI nth_equalityI; simp add: len sq)
    done
  show "PowVarVar_backward_gpu lib m0 m1 [x0, x1] [gy] = backward_cpu lib f [x0, x1] [gy]"
    if "forward_cpu lib (PowVarVar None) [x0, x1] = Inr (f, y)"
  proof -
    from that have f: "f = PowVarVar (Some \<lparr>shape = shape x0,
        data = map2 (fpow lib) (data x0) (data x1)\<rparr>)"
      by (simp add: cpu) blast
    show ?thesis
      apply (simp add: f PowVarVar_backward_gpu_def gpu cpu attr_y_def)
      apply (intro conjI nth_equalityI; simp add: len)
      done
  qed
  show "PowVarConst_backward_gpu lib m0 (PyNumber k) [x0] [gy] =
         backward_cpu lib (PowVarConst (PyNumber k)) [x0] [gy]"
    apply (simp add: PowVarConst_backward_gpu_def gpu cpu)
    apply (intro conjI nth_equalityI; simp add: len)
    done
  show "PowVarConst_backward_gpu lib m0 (NdArray a) [x0] [gy] =
         backward_cpu lib (PowVarConst (NdArray a)) [x0] [gy]"
    apply (simp add: PowVarConst_backward_gpu_def gpu cpu)
    apply (intro conjI nth_equalityI; simp add: len)
    done
  show "map_sum id snd (forward_cpu lib (PowConstVar (PyNumber k) None) [x0]) =
         PowConstVar_forward_gpu lib m0 (PyNumber k) [x0]"
    apply (simp add: PowConstVar_forward_gpu_def gpu cpu np_map_def)
    apply (intro conjI nth_equalityI; simp add: len)
    done
  show "map_sum id snd (forward_cpu lib (PowConstVar (NdArray a) None) [x0]) =
         PowConstVar_forward_gpu lib m0 (NdArray a) [x0]"
    apply (simp add: PowConstVar_forward_gpu_def gpu cpu)
    apply (intro conjI nth_equalityI; simp add: len)
    done
  show "PowConstVar_backward_gpu lib m0 (PyNumber c) [x0] [gy] = backward_cpu lib f [x0] [gy]"
    if "forward_cpu lib (PowConstVar (PyNumber c) None) [x0] = Inr (f, y)"
  proof -
    from that have f: "f = PowConstVar (PyNumber c) (Some (np_map (fpow lib c) x0))"
      by (simp add: cpu) blast
    show ?thesis
      using c
      apply (simp add: f PowConstVar_backward_gpu_def gpu cpu attr_y_def math_log_def)
      apply (intro conjI nth_equalityI; simp add: len)
      done
  qed
  show "PowConstVar_backward_gpu lib m0 (NdArray a) [x0] [gy] = backward_cpu lib f [x0] [gy]"
    if "forward_cpu lib (PowConstVar (NdArray a) None) [x0] = Inr (f, y)"
  proof -
    from that have f: "f = PowConstVar (NdArray a) (Some \<lparr>shape = shape x0,
        data = map2 (fpow lib) (data a) (data x0)\<rparr>)"
      by (simp add: cpu) blast
    show ?thesis
      apply (simp add: f PowConstVar_backward_gpu_def gpu cpu attr_y_def)
      apply (intro conjI nth_equalityI; simp add: len)
      done
  qed
qed

text \<open>
  C9. For the plain constant 0, \<open>PowConstVar\<close>'s two backward computations differ on the
  same input: the host one takes \<open>numpy.log(0)\<close> and returns a gradient, the accelerator
  one takes \<open>math.log(0)\<close> and raises ValueError. Their forward computations agree there.
  For the inputs that this defect does not reach, \<open>gpu_cpu_parity\<close> shows the kernels of
  \<open>Mul\<close>, \<open>Div\<close>, \<open>DivFromConstant\<close> and the \<open>Pow\<close> family equal to the host computations.
\<close>

theorem C9_pow_const_var_backward_diverges:
  "PowConstVar_backward_gpu lib mem (PyNumber 0) [ex_v] [ex_g] = Inl ValueError \<and>
   forward_cpu lib (PowConstVar (PyNumber 0) None) [ex_v] =
     Inr (PowConstVar (PyNumber 0) (Some \<lparr>shape = [2], data = [fpow lib 0 1, fpow lib 0 2]\<rparr>),
          \<lparr>shape = [2], data = [fpow lib 0 1, fpow lib 0 2]\<rparr>) \<and>
   backward_cpu lib
       (PowConstVar (PyNumber 0) (Some \<lparr>shape = [2], data = [fpow lib 0 1, fpow lib 0 2]\<rparr>))
       [ex_v] [ex_g] =
     Inr [\<lparr>shape = [2],
           data = [flog lib 0 * fpow lib 0 1 * 5, flog lib 0 * fpow lib 0 2 * 7]\<rparr>] \<and>
   PowConstVar_forward_gpu lib mem (PyNumber 0) [ex_v] =
     Inr \<lparr>shape = [2], data = [fpow lib 0 1, fpow lib 0 2]\<rparr>"
proof -
  have e: "shape ex_v = [2]" "data ex_v = [1, 2]" "shape ex_g = [2]" "data ex_g = [5, 7]"
    by (simp_all add: ex_v_def ex_g_def)
  have u: "[0..<2] = [0, Suc 0]"
    by (simp add: upt_rec [of _ "numeral _"] upt_rec [of _ "Suc _"])
  have g: "PowConstVar_backward_gpu lib mem (PyNumber 0) [ex_v] [ex_g] = Inl ValueError"
    by (simp add: PowConstVar_backward_gpu_def bind_err_Inr bind_err_Inl item_0 math_log_def
        Let_def)
  have f: "forward_cpu lib (PowConstVar (PyNumber 0) None) [ex_v] =
     Inr (PowConstVar (PyNumber 0) (Some \<lparr>shape = [2], data = [fpow lib 0 1, fpow lib 0 2]\<rparr>),
          \<lparr>shape = [2], data = [fpow lib 0 1, fpow lib 0 2]\<rparr>)"
    by (simp add: bind_err_Inr item_0 np_map_def e)
  have b: "backward_cpu lib
       (PowConstVar (PyNumber 0) (Some \<lparr>shape = [2], data = [fpow lib 0 1, fpow lib 0 2]\<rparr>))
       [ex_v] [ex_g] =
     Inr [\<lparr>shape = [2],
           data = [flog lib 0 * fpow lib 0 1 * 5, flog lib 0 * fpow lib 0 2 * 7]\<rparr>]"
    by (simp add: bind_err_Inr item_0 attr_y_def np_map_def e
        np_binop_len [where s = "[2]"])
  have fg: "PowConstVar_forward_gpu lib mem (PyNumber 0) [ex_v] =
     Inr \<lparr>shape = [2], data = [fpow lib 0 1, fpow lib 0 2]\<rparr>"
    by (simp add: PowConstVar_forward_gpu_def bind_err_Inr item_0 Let_def elementwise_def
        cuda_empty_like_def size_nd_def store_def e u)
  from g f b fg show ?thesis by blast
qed

end
